theory Spec2Isabelle
  imports Complex_Main "HOL-Library.Word"
begin

unbundle bit_operations_syntax

section \<open>Numbers and the linear volume scale\<close>

text \<open>
  JavaScript numbers are IEEE 754 doubles. \<open>scaleValue\<close> is the helper at the end of
  denon.js: two clamping assignments and one linear interpolation. It is translated once,
  over a record of the two comparisons and the four operations it uses, so that the same
  text can be read in exact arithmetic and in the rounded arithmetic of the source.
\<close>

record 'n arithmetic =
  num_lt :: "'n \<Rightarrow> 'n \<Rightarrow> bool"
  num_gt :: "'n \<Rightarrow> 'n \<Rightarrow> bool"
  num_sub :: "'n \<Rightarrow> 'n \<Rightarrow> 'n"
  num_mul :: "'n \<Rightarrow> 'n \<Rightarrow> 'n"
  num_div :: "'n \<Rightarrow> 'n \<Rightarrow> 'n"
  num_add :: "'n \<Rightarrow> 'n \<Rightarrow> 'n"

definition scaleValue_in :: "'n arithmetic \<Rightarrow> 'n \<Rightarrow> 'n \<Rightarrow> 'n \<Rightarrow> 'n \<Rightarrow> 'n \<Rightarrow> 'n" where
  "scaleValue_in A value sourceRangeMin sourceRangeMax targetRangeMin targetRangeMax =
     (let value = (if num_lt A value sourceRangeMin then sourceRangeMin else value);
          value = (if num_gt A value sourceRangeMax then sourceRangeMax else value)
      in num_add A
           (num_div A
              (num_mul A (num_sub A value sourceRangeMin) (num_sub A targetRangeMax targetRangeMin))
              (num_sub A sourceRangeMax sourceRangeMin))
           targetRangeMin)"

text \<open>
  \<open>rounded fl\<close> is the arithmetic of the rationals in which the result of every operation
  is rounded by \<open>fl\<close>; \<open>rounded id\<close> is exact arithmetic. \<open>with_NaN\<close> adds
  \<open>NaN\<close> as \<open>None\<close>: an operation with a \<open>NaN\<close> operand gives \<open>NaN\<close>
  and every comparison with \<open>NaN\<close> is false.
\<close>

definition rounded :: "(rat \<Rightarrow> rat) \<Rightarrow> rat arithmetic" where
  "rounded fl =
     \<lparr>num_lt = (\<lambda>a b. a < b),
      num_gt = (\<lambda>a b. a > b),
      num_sub = (\<lambda>a b. fl (a - b)),
      num_mul = (\<lambda>a b. fl (a * b)),
      num_div = (\<lambda>a b. fl (a / b)),
      num_add = (\<lambda>a b. fl (a + b))\<rparr>"








text \<open>
  \<open>scaleValue\<close> is the exact reading. The volume path of the receiver only handles
  values with one decimal digit on the fixed ranges \<open>-79.5 .. 18\<close> and \<open>0 .. 98\<close>,
  none of which lies within rounding distance of a tie of \<open>Math.round\<close>, so the exact
  arithmetic agrees with the double arithmetic of the source there. \<open>NaN\<close> is not a
  rational: where the source can produce it (\<open>Number\<close>, \<open>parseFloat\<close>) the
  model uses \<open>rat option\<close> with \<open>None\<close> for \<open>NaN\<close>.
\<close>

definition scaleValue :: "rat \<Rightarrow> rat \<Rightarrow> rat \<Rightarrow> rat \<Rightarrow> rat \<Rightarrow> rat" where
  "scaleValue = scaleValue_in (rounded id)"

text \<open>\<open>Math.round\<close> rounds to the nearest integer, ties towards plus infinity.\<close>

definition Math_round :: "rat \<Rightarrow> rat" where
  "Math_round x = of_int \<lfloor>x + 1 / 2\<rfloor>"

text \<open>
  The absolute volume of a zone, as \<open>#processData\<close> and the telnet decoder compute it
  from the raw dB value: \<open>Math.round(scaleValue(v, -79.5, 18, 0, 98) * 2) * 0.5\<close>.
\<close>

definition volume_steps :: "rat \<Rightarrow> rat" where
  "volume_steps v = Math_round (scaleValue v (- 79.5) 18 0 98 * 2) * 0.5"

text \<open>
  The source never maps steps back to dB. The inverse named by the specification is the
  same linear scale with the two ranges exchanged; rounding to one decimal place is
  \<open>toFixed(1)\<close> read back as a number.
\<close>

definition volume_raw_spec :: "rat \<Rightarrow> rat" where
  "volume_raw_spec n = scaleValue n 0 98 (- 79.5) 18"

definition round_one_decimal :: "rat \<Rightarrow> rat" where
  "round_one_decimal x = Math_round (x * 10) / 10"

section \<open>The identifier hash\<close>

text \<open>
  \<open>#crc32\<close> of the receiver class. The table is the one in the source, entry for
  entry: the source writes the entries above \<open>0x7fffffff\<close> as negative numbers, which
  the bitwise operators of JavaScript read as 32-bit two's complement, as \<open>32 word\<close>
  does. The argument is the byte sequence \<open>Buffer.from\<close> makes of the key.
\<close>

definition crc32HashTable :: "32 word list" where
  "crc32HashTable = [
    0x0, 0x77073096, - 0x11f19ed4, - 0x66f6ae46, 0x76dc419, 0x706af48f, - 0x169c5acb,
    - 0x619b6a5d, 0xedb8832, 0x79dcb8a4, - 0x1f2a16e2, - 0x682d2678, 0x9b64c2b, 0x7eb17cbd,
    - 0x1847d2f9, - 0x6f40e26f, 0x1db71064, 0x6ab020f2, - 0xc468eb8, - 0x7b41be22, 0x1adad47d,
    0x6ddde4eb, - 0xb2b4aaf, - 0x7c2c7a39, 0x136c9856, 0x646ba8c0, - 0x29d0686, - 0x759a3614,
    0x14015c4f, 0x63066cd9, - 0x5f0c29d, - 0x72f7f20b, 0x3b6e20c8, 0x4c69105e, - 0x2a9fbe1c,
    - 0x5d988e8e, 0x3c03e4d1, 0x4b04d447, - 0x2df27a03, - 0x5af54a95, 0x35b5a8fa, 0x42b2986c,
    - 0x2444362a, - 0x534306c0, 0x32d86ce3, 0x45df5c75, - 0x2329f231, - 0x542ec2a7, 0x26d930ac,
    0x51de003a, - 0x3728ae80, - 0x402f9eea, 0x21b4f4b5, 0x56b3c423, - 0x30456a67, - 0x47425af1,
    0x2802b89e, 0x5f058808, - 0x39f3264e, - 0x4ef416dc, 0x2f6f7c87, 0x58684c11, - 0x3e9ee255,
    - 0x4999d2c3, 0x76dc4190, 0x1db7106, - 0x672ddf44, - 0x102aefd6, 0x71b18589, 0x6b6b51f,
    - 0x60401b5b, - 0x17472bcd, 0x7807c9a2, 0xf00f934, - 0x69f65772, - 0x1ef167e8, 0x7f6a0dbb,
    0x86d3d2d, - 0x6e9b9369, - 0x199ca3ff, 0x6b6b51f4, 0x1c6c6162, - 0x7a9acf28, - 0xd9dffb2,
    0x6c0695ed, 0x1b01a57b, - 0x7df70b3f, - 0xaf03ba9, 0x65b0d9c6, 0x12b7e950, - 0x74414716,
    - 0x3467784, 0x62dd1ddf, 0x15da2d49, - 0x732c830d, - 0x42bb39b, 0x4db26158, 0x3ab551ce,
    - 0x5c43ff8c, - 0x2b44cf1e, 0x4adfa541, 0x3dd895d7, - 0x5b2e3b93, - 0x2c290b05, 0x4369e96a,
    0x346ed9fc, - 0x529877ba, - 0x259f4730, 0x44042d73, 0x33031de5, - 0x55f5b3a1, - 0x22f28337,
    0x5005713c, 0x270241aa, - 0x41f4eff0, - 0x36f3df7a, 0x5768b525, 0x206f85b3, - 0x46992bf7,
    - 0x319e1b61, 0x5edef90e, 0x29d9c998, - 0x4f2f67de, - 0x3828574c, 0x59b33d17, 0x2eb40d81,
    - 0x4842a3c5, - 0x3f459353, - 0x12477ce0, - 0x65404c4a, 0x3b6e20c, 0x74b1d29a,
    - 0x152ab8c7, - 0x622d8851, 0x4db2615, 0x73dc1683, - 0x1c9cf4ee, - 0x6b9bc47c, 0xd6d6a3e,
    0x7a6a5aa8, - 0x1bf130f5, - 0x6cf60063, 0xa00ae27, 0x7d079eb1, - 0xff06cbc, - 0x78f75c2e,
    0x1e01f268, 0x6906c2fe, - 0x89da8a3, - 0x7f9a9835, 0x196c3671, 0x6e6b06e7, - 0x12be48a,
    - 0x762cd420, 0x10da7a5a, 0x67dd4acc, - 0x6462091, - 0x71411007, 0x17b7be43, 0x60b08ed5,
    - 0x29295c18, - 0x5e2e6c82, 0x38d8c2c4, 0x4fdff252, - 0x2e44980f, - 0x5943a899, 0x3fb506dd,
    0x48b2364b, - 0x27f2d426, - 0x50f5e4b4, 0x36034af6, 0x41047a60, - 0x209f103d, - 0x579820ab,
    0x316e8eef, 0x4669be79, - 0x349e4c74, - 0x43997ce6, 0x256fd2a0, 0x5268e236, - 0x33f3886b,
    - 0x44f4b8fd, 0x220216b9, 0x5505262f, - 0x3a45c442, - 0x4d42f4d8, 0x2bb45a92, 0x5cb36a04,
    - 0x3d280059, - 0x4a2f30cf, 0x2cd99e8b, 0x5bdeae1d, - 0x649b3d50, - 0x139c0dda, 0x756aa39c,
    0x26d930a, - 0x63f6f957, - 0x14f1c9c1, 0x72076785, 0x5005713, - 0x6a40b57e, - 0x1d4785ec,
    0x7bb12bae, 0xcb61b38, - 0x6d2d7165, - 0x1a2a41f3, 0x7cdcefb7, 0xbdbdf21, - 0x792c2d2c,
    - 0xe2b1dbe, 0x68ddb3f8, 0x1fda836e, - 0x7e41e933, - 0x946d9a5, 0x6fb077e1, 0x18b74777,
    - 0x77f7a51a, - 0xf09590, 0x66063bca, 0x11010b5c, - 0x709a6101, - 0x79d5197, 0x616bffd3,
    0x166ccf45, - 0x5ff51d88, - 0x28f22d12, 0x4e048354, 0x3903b3c2, - 0x5898d99f, - 0x2f9fe909,
    0x4969474d, 0x3e6e77db, - 0x512e95b6, - 0x2629a524, 0x40df0b66, 0x37d83bf0, - 0x564351ad,
    - 0x2144613b, 0x47b2cf7f, 0x30b5ffe9, - 0x42420de4, - 0x35453d76, 0x53b39330, 0x24b4a3a6,
    - 0x452fc9fb, - 0x3228f96d, 0x54de5729, 0x23d967bf, - 0x4c9985d2, - 0x3b9eb548, 0x5d681b02,
    0x2a6f2b94, - 0x4bf441c9, - 0x3cf3715f, 0x5a05df1b, 0x2d02ef8d]"

definition crc32_update :: "32 word \<Rightarrow> 8 word \<Rightarrow> 32 word" where
  "crc32_update crc32 b =
     ((crc32HashTable ! unat ((crc32 XOR ucast b) AND 0xff)) XOR drop_bit 8 crc32) AND 0xffffffff"

definition crc32 :: "8 word list \<Rightarrow> 32 word" where
  "crc32 valueToHash = fold (\<lambda>b crc32. crc32_update crc32 b) valueToHash 0xffffffff XOR 0xffffffff"

text \<open>
  The specification's words: the reflected polynomial \<open>0xEDB88320\<close> applied bit by bit,
  eight times per byte, to a register that starts at \<open>0xFFFFFFFF\<close> and is inverted at
  the end.
\<close>

definition crc32_shift_spec :: "32 word \<Rightarrow> 32 word" where
  "crc32_shift_spec c = (if bit c 0 then drop_bit 1 c XOR 0xEDB88320 else drop_bit 1 c)"

definition crc32_byte_spec :: "32 word \<Rightarrow> 8 word \<Rightarrow> 32 word" where
  "crc32_byte_spec c b = (crc32_shift_spec ^^ 8) (c XOR ucast b)"

definition crc32_spec :: "8 word list \<Rightarrow> 32 word" where
  "crc32_spec bs = fold (\<lambda>b c. crc32_byte_spec c b) bs 0xFFFFFFFF XOR 0xFFFFFFFF"

text \<open>The bytes of a key made of ASCII characters (one byte each in UTF-8).\<close>

definition utf8_ascii :: "string \<Rightarrow> 8 word list" where
  "utf8_ascii s = map (\<lambda>c. of_nat (of_char c)) s"

section \<open>Strings and numbers of JavaScript\<close>

text \<open>
  Telegrams are ASCII, so a JavaScript string is modelled as a \<open>string\<close>, one
  character per code unit. The functions below are the string methods the decoder and
  the normaliser call, with the names of the source; \<open>None\<close> stands for \<open>undefined\<close>
  where a method can return it.
\<close>

text \<open>The white space \<open>trim\<close> removes, within ASCII: tab, line feed, vertical tab,
  form feed, carriage return and space.\<close>

definition white_space :: "char \<Rightarrow> bool" where
  "white_space c = (of_char c \<in> {9, 10, 11, 12, 13, 32 :: nat})"

definition trim :: "string \<Rightarrow> string" where
  "trim s = rev (dropWhile white_space (rev (dropWhile white_space s)))"

definition startsWith :: "string \<Rightarrow> string \<Rightarrow> bool" where
  "startsWith s searchString = (take (length searchString) s = searchString)"

text \<open>\<open>s.substring(a)\<close> and \<open>s.substring(a, b)\<close>; every call of the source has constant
  arguments with \<open>a \<le> b\<close>.\<close>

definition substring_from :: "nat \<Rightarrow> string \<Rightarrow> string" where
  "substring_from a s = drop a s"

definition substring :: "nat \<Rightarrow> nat \<Rightarrow> string \<Rightarrow> string" where
  "substring a b s = take (b - a) (drop a s)"

definition padEnd :: "nat \<Rightarrow> char \<Rightarrow> string \<Rightarrow> string" where
  "padEnd targetLength c s = s @ replicate (targetLength - length s) c"

definition upper_char :: "char \<Rightarrow> char" where
  "upper_char c = (if 97 \<le> (of_char c :: nat) \<and> (of_char c :: nat) \<le> 122
                   then char_of ((of_char c :: nat) - 32) else c)"

definition toUpperCase :: "string \<Rightarrow> string" where
  "toUpperCase s = map upper_char s"

text \<open>\<open>s.split(c)\<close> for a separator of one character: the pieces between the separators,
  always at least one piece.\<close>

fun split :: "char \<Rightarrow> string \<Rightarrow> string list" where
  "split c [] = [] # []"
| "split c (x # xs) =
     (if x = c then [] # split c xs
      else (case split c xs of [] \<Rightarrow> [x] # [] | piece # pieces \<Rightarrow> (x # piece) # pieces))"

text \<open>An element of a JavaScript array, \<open>undefined\<close> beyond its end.\<close>

definition element :: "'a list \<Rightarrow> nat \<Rightarrow> 'a option" where
  "element xs i = (if i < length xs then Some (xs ! i) else None)"

text \<open>\<open>s.split(/ (.*)/s)[0]\<close>: the text before the first space.\<close>

definition before_first_space :: "string \<Rightarrow> string" where
  "before_first_space s = takeWhile (\<lambda>c. c \<noteq> CHR '' '') s"

text \<open>\<open>findIndex\<close>, with \<open>None\<close> for \<open>-1\<close>.\<close>

fun findIndex :: "('a \<Rightarrow> bool) \<Rightarrow> 'a list \<Rightarrow> nat option" where
  "findIndex P [] = None"
| "findIndex P (x # xs) = (if P x then Some 0 else map_option Suc (findIndex P xs))"

subsection \<open>Reading numbers\<close>

definition is_digit :: "char \<Rightarrow> bool" where
  "is_digit c = (48 \<le> (of_char c :: nat) \<and> (of_char c :: nat) \<le> 57)"

definition digits_value :: "string \<Rightarrow> nat" where
  "digits_value ds = foldl (\<lambda>n c. 10 * n + ((of_char c :: nat) - 48)) 0 ds"

text \<open>
  An unsigned decimal literal \<open>digits\<close>, \<open>digits.\<close>, \<open>digits.digits\<close> or \<open>.digits\<close>,
  and the text that follows it; \<open>None\<close> when the text does not start with one.
\<close>

definition decimal_prefix :: "string \<Rightarrow> (rat \<times> string) option" where
  "decimal_prefix s =
     (let whole = takeWhile is_digit s; rest = dropWhile is_digit s in
      case rest of
        CHR ''.'' # after \<Rightarrow>
          (let frac = takeWhile is_digit after in
           if whole = [] \<and> frac = [] then None
           else Some (of_nat (digits_value whole) + of_nat (digits_value frac) / 10 ^ length frac,
                      dropWhile is_digit after))
      | _ \<Rightarrow> if whole = [] then None else Some (of_nat (digits_value whole), rest))"

definition signed_prefix :: "string \<Rightarrow> (rat \<times> string) option" where
  "signed_prefix s =
     (case s of
        CHR ''-'' # t \<Rightarrow> map_option (\<lambda>(v, rest). (- v, rest)) (decimal_prefix t)
      | CHR ''+'' # t \<Rightarrow> decimal_prefix t
      | _ \<Rightarrow> decimal_prefix s)"

text \<open>
  \<open>Number(s)\<close>: the empty string and blank strings are 0, a signed decimal literal is its
  value, anything else is \<open>NaN\<close> (\<open>None\<close>). \<open>parseFloat(s)\<close> reads the longest signed
  decimal literal at the start and ignores the rest. The model leaves out the exponent
  part of a literal, the prefixed integers (\<open>0x\<close>, \<open>0o\<close>, \<open>0b\<close>) and \<open>Infinity\<close>, which
  JavaScript also reads and the receiver never sends.
\<close>

definition Number :: "string \<Rightarrow> rat option" where
  "Number s =
     (let t = trim s in
      if t = [] then Some 0
      else (case signed_prefix t of
              Some (v, []) \<Rightarrow> Some v
            | _ \<Rightarrow> None))"

definition parseFloat :: "string \<Rightarrow> rat option" where
  "parseFloat s = map_option fst (signed_prefix (dropWhile white_space s))"

subsection \<open>Writing numbers\<close>

fun decimal_digits :: "nat \<Rightarrow> string" where
  "decimal_digits n =
     (if n < 10 then [char_of (48 + n)]
      else decimal_digits (n div 10) @ [char_of (48 + n mod 10)])"

declare decimal_digits.simps [simp del]

text \<open>
  \<open>x.toFixed(d)\<close>: the sign, then the nearest multiple of \<open>10^-d\<close> of the magnitude
  (ties upwards) with exactly \<open>d\<close> decimals.
\<close>

definition toFixed :: "nat \<Rightarrow> rat \<Rightarrow> string" where
  "toFixed d x =
     (let n = nat \<lfloor>\<bar>x\<bar> * 10 ^ d + 1 / 2\<rfloor>;
          whole = decimal_digits (n div 10 ^ d);
          frac = decimal_digits (n mod 10 ^ d)
      in (if x < 0 then ''-'' else '''') @ whole
         @ (if d = 0 then '''' else ''.'' @ replicate (d - length frac) CHR ''0'' @ frac))"

text \<open>The same for a value that may be \<open>NaN\<close>.\<close>

definition toFixed_NaN :: "nat \<Rightarrow> rat option \<Rightarrow> string" where
  "toFixed_NaN d x = (case x of None \<Rightarrow> ''NaN'' | Some v \<Rightarrow> toFixed d v)"

section \<open>The state kept for a receiver\<close>

text \<open>
  \<open>#rawData[macAddress].value\<close>, as \<open>#getDeviceInfo\<close> fills it from the descriptors of
  the receiver. The per-zone objects (\<open>GetAllZoneVolume.zone1\<close>, ...) are maps from the
  zone number to the entry, a zone the receiver does not have being \<open>undefined\<close>
  (\<open>None\<close>). The objects that hold them are taken to exist. Of a zone of
  \<open>GetAllZoneSource\<close> only the \<open>source\<close> property is kept. \<open>DeviceZones\<close> is
  \<open>Number(deviceInfo.DeviceZones[0])\<close>, and \<open>BandList\<close> holds the names of the bands
  in \<open>deviceInfo.DeviceZoneCapabilities[0].Operation.TunerOperation.BandList.Band\<close>.
\<close>

datatype js_error = TypeError

record zone_volume =
  volume :: string
  disptype :: string
  dispvalue :: string

record function_rename =
  rename_name :: string
  rename :: string

record function_delete =
  delete_name :: string
  use :: string

record preset =
  table :: string
  preset_band :: string
  param :: string
  skip :: string

record tuner_status =
  band :: string
  automanual :: string
  name :: string
  frequency :: string
  presetno :: string
  presetname :: string

record raw_value =
  firmwareVersion :: "string option"
  serialNumber :: string
  friendlyName :: string
  DeviceZones :: nat
  BandList :: "string list"
  presets :: "preset list"
  GetAllZonePowerStatus :: "nat \<rightharpoonup> string"
  GetAllZoneMuteStatus :: "nat \<rightharpoonup> string"
  GetAllZoneVolume :: "nat \<rightharpoonup> zone_volume"
  GetZoneName :: "nat \<rightharpoonup> string"
  GetAllZoneSource :: "nat \<rightharpoonup> string"
  GetTunerStatus :: tuner_status
  GetRenameSource :: "function_rename list"
  GetDeletedSource :: "function_delete list"

section \<open>The telnet decoder\<close>

text \<open>
  The handler of the \<open>data\<close> event in \<open>#subscribeTelnet\<close>. A statement that throws ends
  the handler: the result is \<open>Inl\<close> of the error, otherwise \<open>Inr\<close> of the new state.
  What the handler has written to the state before it throws is not part of the result.
\<close>

definition and_then :: "js_error + 'a \<Rightarrow> ('a \<Rightarrow> js_error + 'b) \<Rightarrow> js_error + 'b" where
  "and_then r f = (case r of Inl e \<Rightarrow> Inl e | Inr x \<Rightarrow> f x)"

fun run_blocks :: "('s \<Rightarrow> js_error + 's) list \<Rightarrow> 's \<Rightarrow> js_error + 's" where
  "run_blocks [] s = Inr s"
| "run_blocks (block # blocks) s = and_then (block s) (run_blocks blocks)"

definition DENON_COMMANDS :: "string list" where
  "DENON_COMMANDS =
     [''MU'', ''MV'', ''ZM'', ''Z2'', ''Z3'', ''SI'', ''TMAN'', ''TPMAN'', ''TPAN'', ''TFANNAME'',
      ''TFAN'', ''OPTPN'', ''OPTPSTUNER'', ''SSSOD'', ''SSFUN'', ''SSINFFRMAVR'', ''VIALLS/N.'',
      ''NSFRN'', ''R1'', ''R2'', ''R3'', ''SSVCTZMADIS'']"

text \<open>
  In every block \<open>c0\<close> is \<open>command[0]\<close>, the first prefix of the table that the line
  starts with, and \<open>c1\<close> is \<open>command[1]\<close>, the rest of the line, trimmed.
\<close>

definition device_info :: "string \<Rightarrow> string \<Rightarrow> raw_value \<Rightarrow> js_error + raw_value" where
  "device_info c0 c1 raw =
     (let raw = (if c0 = ''SSINFFRMAVR'' then raw\<lparr>firmwareVersion := Some c1\<rparr> else raw);
          raw = (if c0 = ''VIALLS/N.'' then raw\<lparr>serialNumber := c1\<rparr> else raw);
          raw = (if c0 = ''NSFRN'' then raw\<lparr>friendlyName := c1\<rparr> else raw)
      in Inr raw)"

definition power_change :: "string \<Rightarrow> nat \<Rightarrow> string \<Rightarrow> string \<Rightarrow> raw_value \<Rightarrow> js_error + raw_value" where
  "power_change prefix zone c0 c1 raw =
     (if c0 = prefix \<and> (c1 = ''ON'' \<or> c1 = ''OFF'')
      then Inr (raw\<lparr>GetAllZonePowerStatus :=
                    (GetAllZonePowerStatus raw)(zone \<mapsto> (if c1 = ''ON'' then ''ON'' else ''OFF''))\<rparr>)
      else Inr raw)"

definition mute_change ::
  "string \<Rightarrow> nat \<Rightarrow> string \<Rightarrow> string \<Rightarrow> string \<Rightarrow> string \<Rightarrow> raw_value \<Rightarrow> js_error + raw_value" where
  "mute_change prefix zone on off c0 c1 raw =
     (if c0 = prefix \<and> (c1 = on \<or> c1 = off)
      then Inr (raw\<lparr>GetAllZoneMuteStatus :=
                    (GetAllZoneMuteStatus raw)(zone \<mapsto> (if c1 = on then ''on'' else ''off''))\<rparr>)
      else Inr raw)"

text \<open>
  The absolute display value of a raw volume:
  \<open>(Math.round((volume !== '--' ? scaleValue(parseFloat(volume), -79.5, 18, 0, 98) : 0.0) * 2) * 0.5)\<close>,
  which \<open>#processData\<close> stores as the volume of the zone and the decoder renders with
  \<open>toFixed(1)\<close>.
\<close>

definition zone_volume_steps :: "string \<Rightarrow> rat option" where
  "zone_volume_steps vol =
     map_option (\<lambda>s. Math_round (s * 2) * 0.5)
       (if vol \<noteq> ''--'' then map_option (\<lambda>v. scaleValue v (- 79.5) 18 0 98) (parseFloat vol)
        else Some 0)"

definition absolute_display :: "string \<Rightarrow> string" where
  "absolute_display vol = toFixed_NaN 1 (zone_volume_steps vol)"

definition show_relative :: "zone_volume \<Rightarrow> zone_volume" where
  "show_relative z = z\<lparr>disptype := ''RELATIVE'', dispvalue := volume z @ ''dB''\<rparr>"

definition show_absolute :: "zone_volume \<Rightarrow> zone_volume" where
  "show_absolute z = z\<lparr>disptype := ''ABSOLUTE'', dispvalue := absolute_display (volume z)\<rparr>"

text \<open>
  The display-type telegram. Zone 1 is written without a test. Zone 2 is guarded by
  \<open>?.zone2 !== undefined\<close> in both branches. Zone 3 is guarded the same way in the
  \<open>REL\<close> branch; in the \<open>ABS\<close> branch the guard is
  \<open>typeof ...?.zone3 !== undefined\<close>, which compares a string with \<open>undefined\<close> and
  always holds, so the assignment to a property of a missing zone 3 throws.
\<close>

definition volume_type_relative :: "raw_value \<Rightarrow> js_error + raw_value" where
  "volume_type_relative raw =
     (case GetAllZoneVolume raw 1 of
        None \<Rightarrow> Inl TypeError
      | Some zone1 \<Rightarrow>
          (let zones = (GetAllZoneVolume raw)(1 \<mapsto> show_relative zone1);
               zones = (case zones 2 of None \<Rightarrow> zones
                        | Some zone2 \<Rightarrow> zones(2 \<mapsto> show_relative zone2));
               zones = (case zones 3 of None \<Rightarrow> zones
                        | Some zone3 \<Rightarrow> zones(3 \<mapsto> show_relative zone3))
           in Inr (raw\<lparr>GetAllZoneVolume := zones\<rparr>)))"

definition volume_type_absolute :: "raw_value \<Rightarrow> js_error + raw_value" where
  "volume_type_absolute raw =
     (case GetAllZoneVolume raw 1 of
        None \<Rightarrow> Inl TypeError
      | Some zone1 \<Rightarrow>
          (let zones = (GetAllZoneVolume raw)(1 \<mapsto> show_absolute zone1);
               zones = (case zones 2 of None \<Rightarrow> zones
                        | Some zone2 \<Rightarrow> zones(2 \<mapsto> show_absolute zone2))
           in case zones 3 of
                None \<Rightarrow> Inl TypeError
              | Some zone3 \<Rightarrow> Inr (raw\<lparr>GetAllZoneVolume := zones(3 \<mapsto> show_absolute zone3)\<rparr>)))"

definition volume_type :: "string \<Rightarrow> string \<Rightarrow> raw_value \<Rightarrow> js_error + raw_value" where
  "volume_type c0 c1 raw =
     (if c0 = ''SSVCTZMADIS'' \<and> (c1 = ''ABS'' \<or> c1 = ''REL'')
      then and_then (if c1 = ''REL'' then volume_type_relative raw else Inr raw)
             (\<lambda>raw. if c1 = ''ABS'' then volume_type_absolute raw else Inr raw)
      else Inr raw)"

text \<open>
  A volume telegram of a zone:
  \<open>Number(c1) !== 0 ? (-79.5 + Number(c1.padEnd(3, '0')) / 10).toFixed(1).toString() : '--'\<close>,
  then the display value in the display type the zone has. The statement for the
  volume limit (\<open>MV\<close> with \<open>MAX\<close>) that follows the block of the main zone has an
  empty body and is left out.
\<close>

definition decode_volume :: "string \<Rightarrow> string" where
  "decode_volume c1 =
     (if Number c1 \<noteq> Some 0
      then toFixed_NaN 1 (map_option (\<lambda>code. - 79.5 + code / 10) (Number (padEnd 3 CHR ''0'' c1)))
      else ''--'')"

definition zone_volume_change ::
  "string \<Rightarrow> nat \<Rightarrow> string \<Rightarrow> string \<Rightarrow> raw_value \<Rightarrow> js_error + raw_value" where
  "zone_volume_change prefix zone c0 c1 raw =
     (if c0 = prefix \<and> Number c1 \<noteq> None
      then (case GetAllZoneVolume raw zone of
              None \<Rightarrow> Inl TypeError
            | Some z \<Rightarrow>
                (let z = z\<lparr>volume := decode_volume c1\<rparr>;
                     z = (if disptype z = ''RELATIVE'' then z\<lparr>dispvalue := volume z @ ''dB''\<rparr> else z);
                     z = (if disptype z = ''ABSOLUTE''
                          then z\<lparr>dispvalue := absolute_display (volume z)\<rparr> else z)
                 in Inr (raw\<lparr>GetAllZoneVolume := (GetAllZoneVolume raw)(zone \<mapsto> z)\<rparr>)))
      else Inr raw)"

definition zone_name_change ::
  "string \<Rightarrow> nat \<Rightarrow> string \<Rightarrow> string \<Rightarrow> raw_value \<Rightarrow> js_error + raw_value" where
  "zone_name_change prefix zone c0 c1 raw =
     (if c0 = prefix
      then Inr (raw\<lparr>GetZoneName :=
                    (GetZoneName raw)(zone \<mapsto> padEnd 10 CHR '' '' (substring 0 10 c1) @ [CHR 0x0D])\<rparr>)
      else Inr raw)"

text \<open>
  The input of the main zone. The two blocks for the inputs of zones 2 and 3 test
  \<open>command === 'Z2'\<close> and \<open>command === 'Z3'\<close>, an array against a string, and never run.
\<close>

definition input_change :: "string \<Rightarrow> string \<Rightarrow> raw_value \<Rightarrow> js_error + raw_value" where
  "input_change c0 c1 raw =
     (if c0 = ''SI''
      then (case GetAllZoneSource raw 1 of
              None \<Rightarrow> Inl TypeError
            | Some _ \<Rightarrow> Inr (raw\<lparr>GetAllZoneSource := (GetAllZoneSource raw)(1 \<mapsto> c1)\<rparr>))
      else Inr raw)"

definition tuner_change :: "string \<Rightarrow> string \<Rightarrow> raw_value \<Rightarrow> js_error + raw_value" where
  "tuner_change c0 c1 raw =
     (let t = GetTunerStatus raw;
          t = (if c0 = ''TMAN'' \<and> (c1 = ''FM'' \<or> c1 = ''AM'') then t\<lparr>band := c1\<rparr> else t);
          t = (if c0 = ''TMAN'' \<and> (c1 = ''AUTO'' \<or> c1 = ''MANUAL'') then t\<lparr>automanual := c1\<rparr> else t);
          t = (if c0 = ''TFANNAME'' then t\<lparr>name := c1 @ [CHR 0x0D]\<rparr> else t);
          t = (if c0 = ''TFAN'' \<and> Number c1 \<noteq> None
               then t\<lparr>frequency := toFixed_NaN 2 (map_option (\<lambda>f. f / 100) (Number c1))\<rparr> else t);
          t = (if c0 = ''TPAN'' then t\<lparr>presetno := c1, presetname := padEnd 10 CHR '' '' ''''\<rparr> else t)
      in Inr (raw\<lparr>GetTunerStatus := t\<rparr>))"

definition preset_detail :: "string \<Rightarrow> raw_value \<Rightarrow> raw_value" where
  "preset_detail c1 raw =
     (let t = GetTunerStatus raw;
          t = (if substring 0 2 c1 = presetno t
               then t\<lparr>presetno := substring 0 2 c1,
                      presetname := padEnd 10 CHR '' '' (substring 2 11 c1),
                      frequency := toFixed_NaN 2
                        (map_option (\<lambda>f. f / 100) (Number (substring 11 17 c1)))\<rparr>
               else t);
          raw = raw\<lparr>GetTunerStatus := t\<rparr>
      in case findIndex (\<lambda>p. table p = substring 0 2 c1) (presets raw) of
           None \<Rightarrow> raw
         | Some index \<Rightarrow>
             raw\<lparr>presets := (presets raw)[index := (presets raw ! index)\<lparr>param := substring_from 2 c1\<rparr>]\<rparr>)"

definition preset_skip :: "string \<Rightarrow> raw_value \<Rightarrow> raw_value" where
  "preset_skip c1 raw =
     (case element (split CHR '' '' c1) 1 of
        None \<Rightarrow> raw
      | Some flag \<Rightarrow>
          if flag = ''ON'' \<or> flag = ''OFF''
          then (case findIndex (\<lambda>p. Some (table p) = element (split CHR '' '' c1) 0) (presets raw) of
                  None \<Rightarrow> raw
                | Some index \<Rightarrow>
                    raw\<lparr>presets := (presets raw)[index := (presets raw ! index)\<lparr>skip := flag\<rparr>]\<rparr>)
          else raw)"

definition preset_change :: "string \<Rightarrow> string \<Rightarrow> raw_value \<Rightarrow> js_error + raw_value" where
  "preset_change c0 c1 raw =
     (let raw = (if c0 = ''OPTPN'' then preset_detail c1 raw else raw);
          raw = (if c0 = ''OPTPSTUNER'' then preset_skip c1 raw else raw)
      in Inr raw)"

text \<open>
  The block for renamed and hidden sources is entered on
  \<open>command[0] === 'SSSOD' || command === 'SSFUN'\<close>. The second test compares the array
  with a string and is false for every line, so a rename telegram never enters the block.
  The first statement of the block is
  \<open>let search = command[1].split(' ').toUpperCase()\<close>: \<open>split\<close> returns an array, which
  has no method \<open>toUpperCase\<close>, so the call throws. The alias chain and the two table
  updates that follow in the source are never reached.
\<close>

definition source_change :: "string \<Rightarrow> string \<Rightarrow> raw_value \<Rightarrow> js_error + raw_value" where
  "source_change c0 c1 raw = (if c0 = ''SSSOD'' then Inl TypeError else Inr raw)"

definition process_command :: "string \<Rightarrow> string \<Rightarrow> raw_value \<Rightarrow> js_error + raw_value" where
  "process_command c0 c1 =
     run_blocks
       [device_info c0 c1,
        power_change ''ZM'' 1 c0 c1, power_change ''Z2'' 2 c0 c1, power_change ''Z3'' 3 c0 c1,
        mute_change ''MU'' 1 ''ON'' ''OFF'' c0 c1,
        mute_change ''Z2'' 2 ''MUON'' ''MUOFF'' c0 c1,
        mute_change ''Z3'' 3 ''MUON'' ''MUOFF'' c0 c1,
        volume_type c0 c1,
        zone_volume_change ''MV'' 1 c0 c1,
        zone_volume_change ''Z2'' 2 c0 c1,
        zone_volume_change ''Z3'' 3 c0 c1,
        zone_name_change ''R1'' 1 c0 c1, zone_name_change ''R2'' 2 c0 c1,
        zone_name_change ''R3'' 3 c0 c1,
        input_change c0 c1,
        tuner_change c0 c1,
        preset_change c0 c1,
        source_change c0 c1]"

text \<open>
  The decoding of one line of a read: a line that starts with no prefix of the table is
  skipped, any other line is decoded. The second component counts the decoded lines.
  The call of \<open>#processPostSubscribe\<close> that follows a decoded line in the source is
  not run here; \<open>handle_dataline\<close> below runs it.
\<close>

definition process_dataline :: "string \<Rightarrow> raw_value \<times> nat \<Rightarrow> js_error + raw_value \<times> nat" where
  "process_dataline dataline st =
     (case filter (startsWith dataline) DENON_COMMANDS of
        [] \<Rightarrow> Inr st
      | c0 # _ \<Rightarrow>
          and_then (process_command c0 (trim (substring_from (length c0) dataline)) (fst st))
            (\<lambda>raw. Inr (raw, Suc (snd st))))"

text \<open>
  The decoding of one \<open>data\<close> event:
  \<open>data.toString().trim().split('\r').forEach(...)\<close>.
\<close>

definition on_data :: "raw_value \<Rightarrow> string \<Rightarrow> js_error + raw_value \<times> nat" where
  "on_data raw data = run_blocks (map process_dataline (split CHR 0x0D (trim data))) (raw, 0)"



section \<open>The zones of the canonical state\<close>

text \<open>
  The loop over the zones in \<open>#processData\<close>. The list of inputs built before the loop
  is a parameter; of an input the loop reads the \<open>uri\<close> only.
\<close>

record input =
  uri :: string
  title :: string
  input_label :: string
  connection :: bool
  input_type :: string
  hidden :: bool
  canhide :: bool
  canrename :: bool

text \<open>\<open>tempZone\<close>; its volume is a number, \<open>NaN\<close> being \<open>None\<close>.\<close>

record zone =
  zone_name :: string
  zone_power :: bool
  zone_steps :: "rat option"
  zone_mute :: bool
  zone_input :: string
  zone_source :: string
  zone_label :: string

text \<open>
  What one round of \<open>tempDevice.inputs.forEach\<close> writes to \<open>tempZone\<close>, once the
  source to compare with is known: the second and the third statement of the round.
\<close>

definition match_input :: "string \<Rightarrow> tuner_status \<Rightarrow> input \<Rightarrow> zone \<Rightarrow> zone" where
  "match_input source tuner inp tempZone =
     (let tempZone =
            (if toUpperCase (before_first_space source) = toUpperCase (uri inp)
                \<or> (toUpperCase (before_first_space source) = ''AIRPLAY''
                    \<and> toUpperCase (uri inp) = ''NET'')
             then tempZone\<lparr>zone_input := uri inp\<rparr> else tempZone);
          tempZone =
            (if toUpperCase source = ''TUNER''
             then
               (let label = trim (name tuner);
                    tempZone =
                      (if toUpperCase (presetno tuner) = ''OFF''
                          \<and> ''TUNER'' @ toUpperCase (band tuner) = toUpperCase (uri inp)
                       then tempZone\<lparr>zone_input := uri inp, zone_label := label\<rparr>
                       else tempZone);
                    tempZone =
                      (if toUpperCase (presetno tuner) \<noteq> ''OFF''
                          \<and> ''PRESET'' @ presetno tuner = toUpperCase (uri inp)
                       then tempZone\<lparr>zone_input := ''TUNER'' @ toUpperCase (band tuner),
                                     zone_source := toUpperCase (uri inp),
                                     zone_label := label\<rparr>
                       else tempZone)
                in tempZone)
             else tempZone)
      in tempZone)"

text \<open>
  One round of \<open>tempDevice.inputs.forEach\<close> for the zone with the given \<open>index\<close>. The
  variable \<open>zoneName\<close> is the number of the zone whose source is read; the first
  statement of the round redirects it to zone 1, and the redirection stays for the
  rounds that follow. Reading the source of a zone that is \<open>undefined\<close> throws.
\<close>

definition resolve_input :: "raw_value \<Rightarrow> nat \<Rightarrow> input \<Rightarrow> nat \<times> zone \<Rightarrow> js_error + nat \<times> zone" where
  "resolve_input raw index inp st =
     (case GetAllZoneSource raw (fst st) of
        None \<Rightarrow> Inl TypeError
      | Some own \<Rightarrow>
          (let zoneName = (if (own = ''SOURCE'' \<or> own = '''') \<and> index \<noteq> 0 then 1 else fst st) in
           case GetAllZoneSource raw zoneName of
             None \<Rightarrow> Inl TypeError
           | Some source \<Rightarrow> Inr (zoneName, match_input source (GetTunerStatus raw) inp (snd st))))"

definition resolve_inputs :: "raw_value \<Rightarrow> nat \<Rightarrow> input list \<Rightarrow> nat \<times> zone \<Rightarrow> js_error + nat \<times> zone" where
  "resolve_inputs raw index inputs = run_blocks (map (resolve_input raw index) inputs)"

text \<open>What the loop resolves for a zone: its active input, its secondary source and the
  label of the station.\<close>

definition resolved :: "js_error + nat \<times> zone \<Rightarrow> js_error + string \<times> string \<times> string" where
  "resolved r = map_sum id (\<lambda>(zoneName, z). (zone_input z, zone_source z, zone_label z)) r"

text \<open>
  The body of the loop over the zones, for the zone with the given \<open>index\<close> (zone
  \<open>index + 1\<close>), and the loop itself.
\<close>

definition process_zone :: "raw_value \<Rightarrow> input list \<Rightarrow> nat \<Rightarrow> js_error + zone" where
  "process_zone raw inputs index =
     (let zoneName = index + 1 in
      case (GetZoneName raw zoneName, GetAllZonePowerStatus raw zoneName,
            GetAllZoneVolume raw zoneName, GetAllZoneMuteStatus raw zoneName) of
        (Some zname, Some pwr, Some vol, Some mt) \<Rightarrow>
          map_sum id snd
            (resolve_inputs raw index inputs
               (zoneName,
                \<lparr>zone_name = trim zname,
                 zone_power = (toUpperCase pwr = ''ON''),
                 zone_steps = zone_volume_steps (volume vol),
                 zone_mute = (toUpperCase mt = ''ON''),
                 zone_input = '''', zone_source = '''', zone_label = ''''\<rparr>))
      | _ \<Rightarrow> Inl TypeError)"

fun collect :: "(js_error + 'a) list \<Rightarrow> js_error + 'a list" where
  "collect [] = Inr []"
| "collect (r # rs) = and_then r (\<lambda>x. and_then (collect rs) (\<lambda>xs. Inr (x # xs)))"

definition process_zones :: "raw_value \<Rightarrow> input list \<Rightarrow> js_error + zone list" where
  "process_zones raw inputs = collect (map (process_zone raw inputs) [0..<DeviceZones raw])"

section \<open>The update that follows a decoded line\<close>

text \<open>
  The inputs that \<open>#processData\<close> builds before the loop over the zones. The chain of
  tests on the upper-case name of a renamed source assigns \<open>uri\<close>, \<open>type\<close>,
  \<open>canhide\<close> and \<open>canrename\<close>; the names are distinct, so the chain is the table
  below, and a name outside the table leaves \<open>type\<close> empty and gives no input.
\<close>

definition source_table :: "(string \<times> string \<times> string \<times> bool \<times> bool) list" where
  "source_table =
     [(''CD'', ''CD'', ''CD'', True, True),
      (''CBL/SAT'', ''SAT/CBL'', ''SAT/CBL'', True, True),
      (''DVD'', ''DVD'', ''DVD'', True, True),
      (''BLU-RAY'', ''BD'', ''BLURAY'', True, True),
      (''GAME'', ''GAME'', ''BLURAY'', True, True),
      (''AUX1'', ''AUX1'', ''AUX'', True, True),
      (''AUX2'', ''AUX2'', ''AUX'', True, True),
      (''MEDIA PLAYER'', ''MPLAY'', ''MEDIAPLAYER'', True, True),
      (''IPOD/USB'', ''USB/IPOD'', ''IPOD/USB'', True, False),
      (''TV AUDIO'', ''TV'', ''TV'', True, True),
      (''NETWORK'', ''NET'', ''NET'', True, False),
      (''BLUETOOTH'', ''BT'', ''BLUETOOTH'', True, False),
      (''SPOTIFYCONNECT'', ''SPOTIFY'', ''SPOTIFY'', False, False)]"

definition source_hidden :: "raw_value \<Rightarrow> string \<Rightarrow> bool" where
  "source_hidden raw source_name =
     (case findIndex (\<lambda>d. delete_name d = source_name) (GetDeletedSource raw) of
        None \<Rightarrow> False
      | Some index \<Rightarrow> Number (use (GetDeletedSource raw ! index)) = Some 0)"

definition renamed_input :: "raw_value \<Rightarrow> function_rename \<Rightarrow> input list" where
  "renamed_input raw functionrename =
     (if toUpperCase (trim (rename_name functionrename)) \<noteq> ''TUNER''
      then (case map_of source_table (toUpperCase (trim (rename_name functionrename))) of
              None \<Rightarrow> []
            | Some (u, t, h, r) \<Rightarrow>
                [\<lparr>uri = u, title = trim (rename_name functionrename),
                  input_label = trim (rename functionrename), connection = True,
                  input_type = t, hidden = source_hidden raw (rename_name functionrename),
                  canhide = h, canrename = r\<rparr>])
      else [])"

definition band_input :: "string \<Rightarrow> input" where
  "band_input band_name =
     \<lparr>uri = ''TUNER'' @ toUpperCase band_name, title = ''Tuner'',
      input_label = ''Tuner '' @ band_name, connection = True, input_type = ''RADIO'',
      hidden = False, canhide = False, canrename = False\<rparr>"

definition preset_input :: "preset \<Rightarrow> input list" where
  "preset_input p =
     (if table p \<noteq> ''OFF''
      then [\<lparr>uri = ''PRESET'' @ table p,
             title = preset_band p @ '' '' @ trim (substring 9 15 (param p)),
             input_label = (if trim (substring 0 8 (param p)) \<noteq> ''''
                            then trim (substring 0 8 (param p)) else ''Preset'' @ table p),
             connection = True, input_type = ''MEMORY'',
             hidden = (toUpperCase (skip p) = ''ON''), canhide = True, canrename = True\<rparr>]
      else [])"

definition build_inputs :: "raw_value \<Rightarrow> input list" where
  "build_inputs raw =
     concat (map (renamed_input raw) (GetRenameSource raw))
     @ map band_input (BandList raw)
     @ concat (map preset_input (presets raw))"

text \<open>
  \<open>#processData\<close> for one receiver: the inputs and the zones of \<open>tempDevice\<close>. The
  strings that identify the receiver (serial number, software version, manufacturer,
  model, description) are computed from strings of the state and are left out. The
  function throws where the loop over the zones does.
\<close>

definition processData :: "raw_value \<Rightarrow> js_error + input list \<times> zone list" where
  "processData raw =
     and_then (process_zones raw (build_inputs raw)) (\<lambda>zs. Inr (build_inputs raw, zs))"

text \<open>
  One line of a read with the call of \<open>#processPostSubscribe\<close> that ends it. That call
  runs \<open>#processData\<close> inside the handler and sends the result to the accessory of the
  receiver: one update, unless \<open>#processData\<close> throws, which ends the read. The
  registry is taken to hold this receiver only, the receiver not to be excluded by the
  configuration, and the creation of the accessory at the first update to complete.
\<close>

definition handle_dataline :: "string \<Rightarrow> raw_value \<times> nat \<Rightarrow> js_error + raw_value \<times> nat" where
  "handle_dataline dataline st =
     (case filter (startsWith dataline) DENON_COMMANDS of
        [] \<Rightarrow> Inr st
      | c0 # _ \<Rightarrow>
          and_then (process_command c0 (trim (substring_from (length c0) dataline)) (fst st))
            (\<lambda>raw. and_then (processData raw) (\<lambda>device. Inr (raw, Suc (snd st)))))"

text \<open>
  One \<open>data\<close> event, \<open>data.toString().trim().split('\r').forEach(...)\<close>, with the number
  of updates it sends. Nothing is kept from one event to the next but the state of the
  receiver.
\<close>

definition data_event :: "raw_value \<Rightarrow> string \<Rightarrow> js_error + raw_value \<times> nat" where
  "data_event raw data = run_blocks (map handle_dataline (split CHR 0x0D (trim data))) (raw, 0)"


section \<open>The request wrapper of the fallback channel\<close>

text \<open>
  \<open>fetchWrapper\<close> of denon.js. The network is a parameter: \<open>net n\<close> is what the
  \<open>n\<close>-th call of \<open>fetch\<close> does, which either resolves with a response or rejects.
  The state threaded through the calls is the \<open>retry\<close> property of the shared
  \<open>options\<close> object (\<open>None\<close> while it is \<open>undefined\<close>) and the number of calls of
  \<open>fetch\<close> made so far. The 500 ms pause before a retry is taken to complete. The
  result is the error thrown or the value returned, \<open>None\<close> being \<open>undefined\<close>.
\<close>

datatype response = Response (ok: bool) (status: nat)

datatype fetch_outcome = Resolves response | Rejects

datatype fetch_error = FetchRejected | HttpError nat | ResponseUndefined | DataCloneError

text \<open>
  The retry passes \<open>structuredClone(response)\<close> as the fifth argument. A response of
  \<open>fetch\<close> is not a cloneable object: the call throws a \<open>DataCloneError\<close>, after
  \<open>options.retry\<close> has been decremented and before the wrapper is called again.
\<close>

definition structuredClone :: "response \<Rightarrow> fetch_error + response" where
  "structuredClone response = Inl DataCloneError"

function fetchWrapper ::
  "(nat \<Rightarrow> fetch_outcome) \<Rightarrow> string \<Rightarrow> string \<Rightarrow> int option \<Rightarrow> nat \<Rightarrow> response option
     \<Rightarrow> (fetch_error + response option) \<times> int option \<times> nat" where
  "fetchWrapper net method url retry n response =
     (if (method \<noteq> ''get'' \<and> method \<noteq> ''post'') \<or> url = []
      then (Inr None, retry, n)
      else
        let r = (case retry of None \<Rightarrow> 1 | Some r \<Rightarrow> r) in
        if r > 0 then
          (case net n of
             Rejects \<Rightarrow> (Inl FetchRejected, Some r, Suc n)
           | Resolves fetched \<Rightarrow>
               (case (if \<not> ok fetched \<and> r > 1
                      then (case structuredClone fetched of
                              Inl e \<Rightarrow> (Inl e, Some (r - 1), Suc n)
                            | Inr clone \<Rightarrow>
                                fetchWrapper net method url (Some (r - 1)) (Suc n) (Some clone))
                      else (Inr (Some fetched), Some r, Suc n))
                of (Inl e, retry', n') \<Rightarrow> (Inl e, retry', n')
                 | (Inr None, retry', n') \<Rightarrow> (Inl ResponseUndefined, retry', n')
                 | (Inr (Some response'), retry', n') \<Rightarrow>
                     if \<not> ok response' \<and> retry' = Some 0
                     then (Inl (HttpError (status response')), retry', n')
                     else (Inr (Some response'), retry', n')))
        else (Inr response, Some r, n))"
  by pat_completeness auto
termination
  by (relation "measure (\<lambda>(net, method, url, retry, n, response).
        nat (case retry of None \<Rightarrow> 1 | Some r \<Rightarrow> r))") auto

declare fetchWrapper.simps [simp del]

section \<open>The override cache of the accessory\<close>

text \<open>
  The first loop of \<open>updateHomeKitServices\<close>. An object is a map from property names to
  values, a missing property being \<open>undefined\<close>. The cache \<open>cachedOptions\<close> is kept as
  the list of its entries, in the order \<open>Object.entries\<close> returns them; a JavaScript
  object holds each key once. The loop compares values through \<open>JSON.stringify\<close>, which
  maps \<open>undefined\<close> to \<open>undefined\<close> and every other value to its serialisation; the
  serialisation of the values is the parameter \<open>enc\<close>.
\<close>

definition JSON_stringify :: "('v \<Rightarrow> string) \<Rightarrow> 'v option \<Rightarrow> string option" where
  "JSON_stringify enc x = map_option enc x"

definition delete_key :: "string \<Rightarrow> (string \<times> 'v) list \<Rightarrow> (string \<times> 'v) list" where
  "delete_key key obj = filter (\<lambda>(k, _). k \<noteq> key) obj"

text \<open>
  One round of the \<open>forEach\<close>: the state is the incoming \<open>updatedDeviceData\<close> and the
  cache, \<open>deviceData\<close> is the data of the accessory before the update.
\<close>

definition reconcile_entry ::
  "('v \<Rightarrow> string) \<Rightarrow> (string \<rightharpoonup> 'v) \<Rightarrow> string \<times> 'v
     \<Rightarrow> (string \<rightharpoonup> 'v) \<times> (string \<times> 'v) list
     \<Rightarrow> (string \<rightharpoonup> 'v) \<times> (string \<times> 'v) list" where
  "reconcile_entry enc deviceData entry st =
     (case (entry, st) of ((key, value), (updatedDeviceData, cachedOptions)) \<Rightarrow>
        if JSON_stringify enc (updatedDeviceData key) = JSON_stringify enc (deviceData key)
           \<and> JSON_stringify enc (updatedDeviceData key) \<noteq> JSON_stringify enc (Some value)
        then (updatedDeviceData(key \<mapsto> value), cachedOptions)
        else if JSON_stringify enc (updatedDeviceData key) \<noteq> JSON_stringify enc (deviceData key)
        then (updatedDeviceData, delete_key key cachedOptions)
        else if JSON_stringify enc (Some value) = JSON_stringify enc (updatedDeviceData key)
                \<and> JSON_stringify enc (Some value) = JSON_stringify enc (deviceData key)
        then (updatedDeviceData, delete_key key cachedOptions)
        else (updatedDeviceData, cachedOptions))"

text \<open>
  The whole loop runs over the entries the cache had when it started; deleting a key
  during the loop does not change that list.
\<close>

definition reconcile ::
  "('v \<Rightarrow> string) \<Rightarrow> (string \<rightharpoonup> 'v) \<Rightarrow> (string \<rightharpoonup> 'v) \<Rightarrow> (string \<times> 'v) list
     \<Rightarrow> (string \<rightharpoonup> 'v) \<times> (string \<times> 'v) list" where
  "reconcile enc deviceData updatedDeviceData cachedOptions =
     fold (reconcile_entry enc deviceData) cachedOptions (updatedDeviceData, cachedOptions)"

section \<open>A receiver with two zones\<close>

text \<open>
  A state as the descriptors of a two-zone receiver give it, used to run the definitions
  above: zone 2 follows the main zone, and there is no entry for a zone 3.
\<close>

definition two_zone_receiver :: raw_value where
  "two_zone_receiver =
     \<lparr>firmwareVersion = None, serialNumber = ''AB1234567890'', friendlyName = ''Denon AVR-X2000'',
      DeviceZones = 2, BandList = [''FM'', ''AM''],
      presets = [\<lparr>table = ''01'', preset_band = ''FM'', param = ''RADIO 1  008750'', skip = ''OFF''\<rparr>],
      GetAllZonePowerStatus = [1 \<mapsto> ''ON'', 2 \<mapsto> ''OFF''],
      GetAllZoneMuteStatus = [1 \<mapsto> ''off'', 2 \<mapsto> ''off''],
      GetAllZoneVolume =
        [1 \<mapsto> \<lparr>volume = ''-40.0'', disptype = ''ABSOLUTE'', dispvalue = ''39.5''\<rparr>,
         2 \<mapsto> \<lparr>volume = ''-50.0'', disptype = ''ABSOLUTE'', dispvalue = ''29.5''\<rparr>],
      GetZoneName = [1 \<mapsto> ''MAIN ZONE '', 2 \<mapsto> ''ZONE2     ''],
      GetAllZoneSource = [1 \<mapsto> ''BD'', 2 \<mapsto> ''SOURCE''],
      GetTunerStatus =
        \<lparr>band = ''FM'', automanual = ''AUTO'', name = ''RADIO 1'', frequency = ''87.50'',
         presetno = ''OFF'', presetname = ''          ''\<rparr>,
      GetRenameSource =
        [\<lparr>rename_name = ''CD'', rename = ''CD''\<rparr>, \<lparr>rename_name = ''Blu-ray'', rename = ''Blu-ray''\<rparr>],
      GetDeletedSource =
        [\<lparr>delete_name = ''CD'', use = ''1''\<rparr>, \<lparr>delete_name = ''Blu-ray'', use = ''1''\<rparr>]\<rparr>"

definition plain_input :: "string \<Rightarrow> string \<Rightarrow> input" where
  "plain_input u t =
     \<lparr>uri = u, title = t, input_label = t, connection = True, input_type = u, hidden = False,
      canhide = True, canrename = True\<rparr>"

definition fresh_zone :: zone where
  "fresh_zone =
     \<lparr>zone_name = '''', zone_power = False, zone_steps = Some 0, zone_mute = False,
      zone_input = '''', zone_source = '''', zone_label = ''''\<rparr>"

section \<open>Properties of the volume scale\<close>

lemma scaleValue_exact:
  "scaleValue value sourceRangeMin sourceRangeMax targetRangeMin targetRangeMax =
     (let value = (if value < sourceRangeMin then sourceRangeMin else value);
          value = (if value > sourceRangeMax then sourceRangeMax else value)
      in ((value - sourceRangeMin) * (targetRangeMax - targetRangeMin))
           / (sourceRangeMax - sourceRangeMin) + targetRangeMin)"
  by (simp add: scaleValue_def scaleValue_in_def rounded_def)

lemma scaleValue_clamped:
  assumes "smin < smax"
  shows "scaleValue v smin smax tmin tmax
         = ((min smax (max smin v) - smin) * (tmax - tmin)) / (smax - smin) + tmin"
  using assms by (auto simp: scaleValue_exact Let_def min_def max_def)

lemma scaleValue_lower:
  assumes "smin < smax" "tmin \<le> tmax"
  shows "tmin \<le> scaleValue v smin smax tmin tmax"
proof -
  let ?c = "min smax (max smin v)"
  have "0 \<le> (?c - smin) * (tmax - tmin)" using assms by (intro mult_nonneg_nonneg) auto
  then have "0 \<le> ((?c - smin) * (tmax - tmin)) / (smax - smin)"
    using assms by (intro divide_nonneg_pos) auto
  then show ?thesis using assms by (simp add: scaleValue_clamped)
qed

lemma scaleValue_upper:
  assumes "smin < smax" "tmin \<le> tmax"
  shows "scaleValue v smin smax tmin tmax \<le> tmax"
proof -
  let ?c = "min smax (max smin v)"
  have "(?c - smin) * (tmax - tmin) \<le> (smax - smin) * (tmax - tmin)"
    using assms by (intro mult_right_mono) auto
  then have "((?c - smin) * (tmax - tmin)) / (smax - smin) \<le> tmax - tmin"
    using assms by (simp add: pos_divide_le_eq mult.commute)
  then show ?thesis using assms by (simp add: scaleValue_clamped)
qed

lemma scaleValue_mono:
  assumes "smin < smax" "tmin \<le> tmax" "v \<le> w"
  shows "scaleValue v smin smax tmin tmax \<le> scaleValue w smin smax tmin tmax"
proof -
  have "min smax (max smin v) - smin \<le> min smax (max smin w) - smin"
    using assms by (auto simp: min_def max_def)
  then have "(min smax (max smin v) - smin) * (tmax - tmin)
             \<le> (min smax (max smin w) - smin) * (tmax - tmin)"
    using assms by (intro mult_right_mono) auto
  then show ?thesis
    using assms by (simp add: scaleValue_clamped divide_right_mono)
qed







lemma Math_round_near: "\<bar>Math_round x - x\<bar> \<le> 1 / 2"
  unfolding Math_round_def by linarith

lemma volume_steps_range: "0 \<le> volume_steps v \<and> volume_steps v \<le> 98"
proof -
  let ?s = "scaleValue v (- 79.5) 18 0 98"
  have s: "0 \<le> ?s" "?s \<le> 98"
    using scaleValue_lower [of "- 79.5" 18 0 98 v] scaleValue_upper [of "- 79.5" 18 0 98 v]
    by simp_all
  have "(0::int) \<le> \<lfloor>?s * 2 + 1 / 2\<rfloor>" using s by (simp add: le_floor_iff)
  moreover have "\<lfloor>?s * 2 + 1 / 2\<rfloor> \<le> (196::int)" using s by (simp add: floor_le_iff)
  ultimately show ?thesis
    unfolding volume_steps_def Math_round_def by simp
qed

lemma abs_scaled:
  fixes a d c q :: rat
  assumes "a = d * c" and "\<bar>d\<bar> \<le> q" and "0 \<le> c" and "c \<le> 1"
  shows "\<bar>a\<bar> \<le> q"
proof -
  have "\<bar>a\<bar> = \<bar>d\<bar> * c" using assms by (simp add: abs_mult)
  also have "\<dots> \<le> \<bar>d\<bar> * 1" using assms by (intro mult_left_mono) auto
  finally show ?thesis using assms by simp
qed

text \<open>
  Claim C6, as amended. Normalising a raw volume in \<open>[-79.5, 18]\<close> to the 0.5 step grid
  and scaling back returns a value within a quarter of a dB of the original: the grid has
  197 points for 976 raw values, so the original itself is not recovered.
\<close>

theorem volume_round_trip_quarter:
  assumes "- 79.5 \<le> v" and "v \<le> 18"
  shows "\<bar>volume_raw_spec (volume_steps v) - v\<bar> \<le> 1 / 4"
proof -
  let ?s = "scaleValue v (- 79.5) 18 0 98"
  have sv: "?s = (v + 79.5) * 98 / 97.5"
    using assms by (simp add: scaleValue_clamped min_def max_def)
  have near: "\<bar>volume_steps v - ?s\<bar> \<le> 1 / 4"
  proof -
    have "volume_steps v - ?s = (Math_round (?s * 2) - ?s * 2) / 2"
      by (simp add: volume_steps_def)
    then have "\<bar>volume_steps v - ?s\<bar> = \<bar>Math_round (?s * 2) - ?s * 2\<bar> / 2"
      by (simp only: abs_divide)
    then show ?thesis using Math_round_near [of "?s * 2"] by simp
  qed
  have inv: "volume_raw_spec (volume_steps v) = volume_steps v * 97.5 / 98 - 79.5"
    using volume_steps_range [of v]
    by (simp add: volume_raw_spec_def scaleValue_clamped min_def max_def)
  have "volume_raw_spec (volume_steps v) - v = (volume_steps v - ?s) * (97.5 / 98)"
    unfolding inv sv by (simp add: field_simps)
  then show ?thesis
    using near by (rule abs_scaled) simp_all
qed

text \<open>
  Claim C6, as stated, fails at \<open>-34.0\<close> dB: the step is 45.5, which scales back to
  \<open>-34.23\<close>, and that rounds to \<open>-34.2\<close>.
\<close>

theorem volume_round_trip_counterexample:
  "volume_steps (- 34) = 45.5
   \<and> volume_raw_spec (volume_steps (- 34)) = - 34 - 13 / 56
   \<and> round_one_decimal (volume_raw_spec (volume_steps (- 34))) = - 34.2
   \<and> round_one_decimal (volume_raw_spec (volume_steps (- 34))) \<noteq> - 34"
  by code_simp

theorem volume_round_trip_quarter_witness:
  "(- 79.5 :: rat) \<le> - 34 \<and> (- 34 :: rat) \<le> 18
   \<and> \<bar>volume_raw_spec (volume_steps (- 34)) - (- 34)\<bar> \<le> 1 / 4"
  using volume_round_trip_quarter [of "- 34"] by simp

section \<open>The hash is the standard CRC-32\<close>

lemma funpow8: "(f ^^ 8) x = f (f (f (f (f (f (f (f x)))))))"
  by (simp add: eval_nat_numeral)

lemma table_entries:
  "map (crc32_shift_spec ^^ 8) (map of_nat [0..<256]) = crc32HashTable"
  by (simp add: upt_rec funpow8 crc32_shift_spec_def crc32HashTable_def)

lemma table_lookup:
  assumes "i < 256"
  shows "crc32HashTable ! i = (crc32_shift_spec ^^ 8) (of_nat i)"
proof -
  have "crc32HashTable ! i = map (crc32_shift_spec ^^ 8) (map of_nat [0..<256]) ! i"
    by (simp only: table_entries)
  also have "\<dots> = (crc32_shift_spec ^^ 8) (of_nat i)"
    using assms by (simp del: upt_Suc)
  finally show ?thesis .
qed

lemma shift_spec_xor:
  "crc32_shift_spec (x XOR y) = crc32_shift_spec x XOR crc32_shift_spec y"
  by (simp add: crc32_shift_spec_def bit_xor_iff drop_bit_xor ac_simps)

lemma shift_spec_funpow_xor:
  "(crc32_shift_spec ^^ n) (x XOR y) = (crc32_shift_spec ^^ n) x XOR (crc32_shift_spec ^^ n) y"
  by (induction n) (simp_all add: shift_spec_xor)

lemma shift_spec_high:
  assumes "take_bit 8 h = 0" and "k \<le> 8"
  shows "(crc32_shift_spec ^^ k) h = drop_bit k h"
  using assms(2)
proof (induction k)
  case 0
  show ?case by simp
next
  case (Suc k)
  then have k: "k < 8" by simp
  have "bit (take_bit 8 h) k = bit (0 :: 32 word) k" by (simp only: assms(1))
  then have nb: "\<not> bit h k" using k by (simp add: bit_take_bit_iff)
  have "(crc32_shift_spec ^^ Suc k) h = crc32_shift_spec (drop_bit k h)"
    using Suc by simp
  also have "\<dots> = drop_bit 1 (drop_bit k h)"
    using nb by (simp add: crc32_shift_spec_def bit_drop_bit_eq)
  also have "\<dots> = drop_bit (Suc k) h" by (simp add: drop_bit_drop_bit)
  finally show ?case .
qed

lemma split_low_high:
  "(x :: 32 word) = (x AND 0xff) XOR push_bit 8 (drop_bit 8 x)"
proof -
  have m: "(0xff :: 32 word) = mask 8" by (simp add: mask_eq_exp_minus_1)
  show ?thesis unfolding m
    by (rule bit_eqI) (auto simp: bit_simps)
qed

lemma crc32_update_refines: "crc32_update c b = crc32_byte_spec c b"
proof -
  define x where "x = c XOR ucast b"
  define lo where "lo = x AND 0xff"
  define hi where "hi = push_bit 8 (drop_bit 8 x)"
  have m: "(0xff :: 32 word) = mask 8" by (simp add: mask_eq_exp_minus_1)
  have lo_lt: "unat lo < 256"
    unfolding lo_def m by (simp add: flip: take_bit_eq_mask) (simp add: unsigned_take_bit_eq take_bit_nat_less_exp [of 8, simplified])
  have lo_tab: "crc32HashTable ! unat lo = (crc32_shift_spec ^^ 8) lo"
    using table_lookup [OF lo_lt] by simp
  have hi0: "take_bit 8 hi = 0"
    unfolding hi_def by (rule bit_eqI) (auto simp: bit_simps)
  have "drop_bit 8 hi = drop_bit 8 x"
    unfolding hi_def by (rule bit_eqI) (auto simp: bit_simps dest: bit_imp_le_length)
  then have hi8: "(crc32_shift_spec ^^ 8) hi = drop_bit 8 x"
    using shift_spec_high [OF hi0 order_refl] by simp
  have ub: "drop_bit 8 (ucast b :: 32 word) = 0"
    by (rule bit_eqI) (auto simp: bit_simps dest: bit_imp_le_length)
  have dx: "drop_bit 8 x = drop_bit 8 c"
    unfolding x_def by (simp add: drop_bit_xor ub)
  have "x = lo XOR hi" unfolding lo_def hi_def by (rule split_low_high)
  then have "(crc32_shift_spec ^^ 8) x = (crc32_shift_spec ^^ 8) lo XOR (crc32_shift_spec ^^ 8) hi"
    by (simp only: shift_spec_funpow_xor)
  also have "\<dots> = crc32HashTable ! unat lo XOR drop_bit 8 c"
    by (simp only: lo_tab hi8 dx)
  finally have "crc32_byte_spec c b = crc32HashTable ! unat lo XOR drop_bit 8 c"
    by (simp only: crc32_byte_spec_def x_def)
  moreover have "crc32_update c b = crc32HashTable ! unat lo XOR drop_bit 8 c"
  proof -
    have e: "(0xffffffff :: 32 word) = - 1" by simp
    have "w AND 0xffffffff = w" for w :: "32 word"
      unfolding e by simp
    then show ?thesis by (simp only: crc32_update_def lo_def x_def)
  qed
  ultimately show ?thesis by simp
qed

lemma crc32_fold_refines:
  "fold (\<lambda>b c. crc32_update c b) bs c0 = fold (\<lambda>b c. crc32_byte_spec c b) bs c0"
  by (induction bs arbitrary: c0) (simp_all add: crc32_update_refines)

text \<open>
  Claim C5. The hash of the source equals the bitwise reflected CRC-32 of the
  specification on every byte sequence, and gives the check value of the algorithm,
  \<open>0xCBF43926\<close>, on the key \<open>123456789\<close>.
\<close>

theorem crc32_is_standard_crc32:
  "crc32 valueToHash = crc32_spec valueToHash
   \<and> crc32 (utf8_ascii ''123456789'') = 0xCBF43926"
proof
  show "crc32 valueToHash = crc32_spec valueToHash"
    by (simp add: crc32_def crc32_spec_def crc32_fold_refines)
  show "crc32 (utf8_ascii ''123456789'') = 0xCBF43926"
    by code_simp
qed

section \<open>Decoding single telegrams\<close>

lemmas block_defs =
  device_info_def power_change_def mute_change_def volume_type_def zone_volume_change_def
  zone_name_change_def input_change_def tuner_change_def preset_change_def source_change_def

lemma on_data_one_line:
  assumes "split CHR 0x0D (trim data) = [l]"
  shows "on_data raw data = process_dataline l (raw, 0)"
proof -
  have "run_blocks [process_dataline l] (raw, 0) = process_dataline l (raw, 0)"
    by (cases "process_dataline l (raw, 0)") (simp_all add: and_then_def)
  then show ?thesis by (simp add: on_data_def assms)
qed

lemma process_dataline_known:
  assumes "filter (startsWith l) DENON_COMMANDS = c0 # cs"
    and "trim (substring_from (length c0) l) = c1"
  shows "process_dataline l (raw, n)
         = and_then (process_command c0 c1 raw) (\<lambda>raw'. Inr (raw', Suc n))"
  using assms by (simp add: process_dataline_def)

lemma read_MV455:
  "split CHR 0x0D (trim (''MV455'' @ [CHR 0x0D])) = [''MV455'']"
  "filter (startsWith ''MV455'') DENON_COMMANDS = [''MV'']"
  "trim (substring_from (length ''MV'') ''MV455'') = ''455''"
  by code_simp+

lemma value_455:
  "Number ''455'' = Some 455"
  "decode_volume ''455'' = ''-34.0''"
  "absolute_display ''-34.0'' = ''45.5''"
  "zone_volume_steps ''-34.0'' = Some 45.5"
  by code_simp+

lemma command_MV455:
  assumes "GetAllZoneVolume raw 1 = Some z"
  shows "process_command ''MV'' ''455'' raw
         = Inr (raw\<lparr>GetAllZoneVolume := (GetAllZoneVolume raw)(1 \<mapsto>
             z\<lparr>volume := ''-34.0'',
               dispvalue := (if disptype z = ''ABSOLUTE'' then ''45.5''
                             else if disptype z = ''RELATIVE'' then ''-34.0dB''
                             else dispvalue z)\<rparr>)\<rparr>)"
  using assms
  by (simp add: process_command_def and_then_def block_defs value_455 Let_def)

text \<open>
  Claim C4. A read holding the volume telegram with code 455 stores the raw volume
  \<open>-34.0\<close> for the main zone, whatever the state before, and renders it in the display
  type of the zone; the absolute step computed from that raw value is 45.5.
\<close>

theorem volume_telegram_455:
  assumes "GetAllZoneVolume raw 1 = Some z"
  shows "on_data raw (''MV455'' @ [CHR 0x0D])
         = Inr (raw\<lparr>GetAllZoneVolume := (GetAllZoneVolume raw)(1 \<mapsto>
             z\<lparr>volume := ''-34.0'',
               dispvalue := (if disptype z = ''ABSOLUTE'' then ''45.5''
                             else if disptype z = ''RELATIVE'' then ''-34.0dB''
                             else dispvalue z)\<rparr>)\<rparr>, 1)
         \<and> decode_volume ''455'' = toFixed 1 (- 79.5 + 455 / 10)
         \<and> zone_volume_steps ''-34.0'' = Some 45.5
         \<and> absolute_display ''-34.0'' = ''45.5''"
proof -
  have "toFixed 1 (- 79.5 + 455 / 10) = ''-34.0''" by code_simp
  then show ?thesis
    unfolding on_data_one_line [OF read_MV455(1)]
      process_dataline_known [OF read_MV455(2,3)] command_MV455 [OF assms]
    by (simp add: and_then_def value_455)
qed

theorem volume_telegram_455_witness:
  "GetAllZoneVolume two_zone_receiver 1
     = Some \<lparr>volume = ''-40.0'', disptype = ''ABSOLUTE'', dispvalue = ''39.5''\<rparr>
   \<and> map_sum id (\<lambda>(raw, updates). (GetAllZoneVolume raw 1, updates))
        (on_data two_zone_receiver (''MV455'' @ [CHR 0x0D]))
      = Inr (Some \<lparr>volume = ''-34.0'', disptype = ''ABSOLUTE'', dispvalue = ''45.5''\<rparr>, 1)"
proof -
  have z: "GetAllZoneVolume two_zone_receiver 1
     = Some \<lparr>volume = ''-40.0'', disptype = ''ABSOLUTE'', dispvalue = ''39.5''\<rparr>"
    by (simp add: two_zone_receiver_def)
  from volume_telegram_455 [OF z] z show ?thesis by simp
qed

section \<open>Rename and hide telegrams\<close>

lemma command_SSSOD: "process_command ''SSSOD'' c1 raw = Inl TypeError"
  by (simp add: process_command_def and_then_def block_defs Let_def)

lemma command_SSFUN: "process_command ''SSFUN'' c1 raw = Inr raw"
  by (simp add: process_command_def and_then_def block_defs Let_def)

lemma read_SSSOD:
  "split CHR 0x0D (trim (''SSSODBD DEL'' @ [CHR 0x0D])) = [''SSSODBD DEL'']"
  "filter (startsWith ''SSSODBD DEL'') DENON_COMMANDS = [''SSSOD'']"
  by code_simp+

lemma read_SSFUN:
  "split CHR 0x0D (trim (''SSFUNBD Player'' @ [CHR 0x0D])) = [''SSFUNBD Player'']"
  "filter (startsWith ''SSFUNBD Player'') DENON_COMMANDS = [''SSFUN'']"
  by code_simp+

text \<open>
  Claim C3, on the code. Whatever follows the prefix and whatever the state, a hide
  telegram (\<open>SSSOD\<close>) ends in a \<open>TypeError\<close> and a rename telegram (\<open>SSFUN\<close>) leaves
  the state as it was, the rename table included; so for the alias \<open>BD\<close> of
  \<open>BLU-RAY\<close>.
\<close>

theorem rename_hide_telegrams:
  "process_command ''SSSOD'' c1 raw = Inl TypeError
   \<and> process_command ''SSFUN'' c1 raw = Inr raw
   \<and> on_data raw (''SSSODBD DEL'' @ [CHR 0x0D]) = Inl TypeError
   \<and> on_data raw (''SSFUNBD Player'' @ [CHR 0x0D]) = Inr (raw, 1)"
proof -
  have hide: "on_data raw (''SSSODBD DEL'' @ [CHR 0x0D]) = Inl TypeError"
    unfolding on_data_one_line [OF read_SSSOD(1)]
      process_dataline_known [OF read_SSSOD(2) refl] command_SSSOD
    by (simp add: and_then_def)
  have rename: "on_data raw (''SSFUNBD Player'' @ [CHR 0x0D]) = Inr (raw, 1)"
    unfolding on_data_one_line [OF read_SSFUN(1)]
      process_dataline_known [OF read_SSFUN(2) refl] command_SSFUN
    by (simp add: and_then_def)
  show ?thesis using hide rename command_SSSOD command_SSFUN by simp
qed

section \<open>The display-type telegram\<close>

lemma read_ABS:
  "split CHR 0x0D (trim (''SSVCTZMADIS ABS'' @ [CHR 0x0D])) = [''SSVCTZMADIS ABS'']"
  "filter (startsWith ''SSVCTZMADIS ABS'') DENON_COMMANDS = [''SSVCTZMADIS'']"
  "trim (substring_from (length ''SSVCTZMADIS'') ''SSVCTZMADIS ABS'') = ''ABS''"
  by code_simp+

lemma read_REL:
  "split CHR 0x0D (trim (''SSVCTZMADIS REL'' @ [CHR 0x0D])) = [''SSVCTZMADIS REL'']"
  "filter (startsWith ''SSVCTZMADIS REL'') DENON_COMMANDS = [''SSVCTZMADIS'']"
  "trim (substring_from (length ''SSVCTZMADIS'') ''SSVCTZMADIS REL'') = ''REL''"
  by code_simp+

lemma command_display_type:
  "process_command ''SSVCTZMADIS'' ''ABS'' raw = volume_type_absolute raw"
  "process_command ''SSVCTZMADIS'' ''REL'' raw = volume_type_relative raw"
proof -
  have r: "(case r of Inl e \<Rightarrow> Inl e | Inr x \<Rightarrow> Inr x) = r" for r :: "js_error + raw_value"
    by (cases r) simp_all
  show "process_command ''SSVCTZMADIS'' ''ABS'' raw = volume_type_absolute raw"
    by (cases "volume_type_absolute raw")
      (simp_all add: process_command_def and_then_def block_defs Let_def)
  show "process_command ''SSVCTZMADIS'' ''REL'' raw = volume_type_relative raw"
    by (cases "volume_type_relative raw")
      (simp_all add: process_command_def and_then_def block_defs Let_def)
qed

lemma absolute_without_zone3:
  "GetAllZoneVolume raw 3 = None \<Longrightarrow> volume_type_absolute raw = Inl TypeError"
  by (simp add: volume_type_absolute_def Let_def split: option.splits)

text \<open>
  With all three zones present both telegrams re-render every zone from its stored raw
  volume and leave that volume as it is.
\<close>

lemma display_type_three_zones:
  assumes "GetAllZoneVolume raw 1 = Some z1" and "GetAllZoneVolume raw 2 = Some z2"
    and "GetAllZoneVolume raw 3 = Some z3"
  shows "volume_type_absolute raw
         = Inr (raw\<lparr>GetAllZoneVolume := (GetAllZoneVolume raw)
                  (1 \<mapsto> show_absolute z1, 2 \<mapsto> show_absolute z2, 3 \<mapsto> show_absolute z3)\<rparr>)"
    and "volume_type_relative raw
         = Inr (raw\<lparr>GetAllZoneVolume := (GetAllZoneVolume raw)
                  (1 \<mapsto> show_relative z1, 2 \<mapsto> show_relative z2, 3 \<mapsto> show_relative z3)\<rparr>)"
    and "volume (show_absolute z) = volume z" and "volume (show_relative z) = volume z"
  using assms
  by (simp_all add: volume_type_absolute_def volume_type_relative_def Let_def
      show_absolute_def show_relative_def)

lemma relative_two_zones:
  assumes "GetAllZoneVolume raw 1 = Some z1" and "GetAllZoneVolume raw 2 = Some z2"
    and "GetAllZoneVolume raw 3 = None"
  shows "volume_type_relative raw
         = Inr (raw\<lparr>GetAllZoneVolume := (GetAllZoneVolume raw)
                  (1 \<mapsto> show_relative z1, 2 \<mapsto> show_relative z2)\<rparr>)"
  using assms by (simp add: volume_type_relative_def Let_def)

text \<open>
  Claim C9, on the code. On a receiver without a zone 3 the telegram that switches the
  display to absolute ends in a \<open>TypeError\<close>, whatever the rest of the state; the
  telegram that switches to relative re-renders the two zones of the two-zone receiver
  from their stored raw volumes.
\<close>

theorem display_type_absolute_needs_zone3:
  "on_data (raw\<lparr>GetAllZoneVolume := (GetAllZoneVolume raw)(3 := None)\<rparr>)
       (''SSVCTZMADIS ABS'' @ [CHR 0x0D]) = Inl TypeError
   \<and> on_data two_zone_receiver (''SSVCTZMADIS ABS'' @ [CHR 0x0D]) = Inl TypeError
   \<and> on_data two_zone_receiver (''SSVCTZMADIS REL'' @ [CHR 0x0D])
      = Inr (two_zone_receiver\<lparr>GetAllZoneVolume := (GetAllZoneVolume two_zone_receiver)
               (1 \<mapsto> \<lparr>volume = ''-40.0'', disptype = ''RELATIVE'', dispvalue = ''-40.0dB''\<rparr>,
                2 \<mapsto> \<lparr>volume = ''-50.0'', disptype = ''RELATIVE'', dispvalue = ''-50.0dB''\<rparr>)\<rparr>, 1)"
proof -
  have general: "on_data r (''SSVCTZMADIS ABS'' @ [CHR 0x0D]) = Inl TypeError"
    if "GetAllZoneVolume r 3 = None" for r
    unfolding on_data_one_line [OF read_ABS(1)]
      process_dataline_known [OF read_ABS(2,3)] command_display_type
      absolute_without_zone3 [OF that]
    by (simp add: and_then_def)
  have z: "GetAllZoneVolume two_zone_receiver 1
             = Some \<lparr>volume = ''-40.0'', disptype = ''ABSOLUTE'', dispvalue = ''39.5''\<rparr>"
    "GetAllZoneVolume two_zone_receiver 2
             = Some \<lparr>volume = ''-50.0'', disptype = ''ABSOLUTE'', dispvalue = ''29.5''\<rparr>"
    "GetAllZoneVolume two_zone_receiver 3 = None"
    by (simp_all add: two_zone_receiver_def)
  have rel: "on_data two_zone_receiver (''SSVCTZMADIS REL'' @ [CHR 0x0D])
      = Inr (two_zone_receiver\<lparr>GetAllZoneVolume := (GetAllZoneVolume two_zone_receiver)
               (1 \<mapsto> \<lparr>volume = ''-40.0'', disptype = ''RELATIVE'', dispvalue = ''-40.0dB''\<rparr>,
                2 \<mapsto> \<lparr>volume = ''-50.0'', disptype = ''RELATIVE'', dispvalue = ''-50.0dB''\<rparr>)\<rparr>, 1)"
    unfolding on_data_one_line [OF read_REL(1)]
      process_dataline_known [OF read_REL(2,3)] command_display_type
      relative_two_zones [OF z]
    by (simp add: and_then_def show_relative_def)
  show ?thesis
    using general [of "raw\<lparr>GetAllZoneVolume := (GetAllZoneVolume raw)(3 := None)\<rparr>"]
      general [OF z(3)] rel
    by simp
qed

section \<open>Lines of a read\<close>







lemma run_one_block: "run_blocks [f] = f"
proof
  fix s
  show "run_blocks [f] s = f s"
    by (cases "f s") (simp_all add: and_then_def)
qed

lemma run_two_blocks: "run_blocks [f, g] s = and_then (f s) g"
proof -
  have "run_blocks [f, g] s = and_then (f s) (run_blocks [g])" by simp
  then show ?thesis by (simp only: run_one_block)
qed







text \<open>
  A read of two telegram lines of which the first throws: the hide telegram ends the
  read, and the volume telegram behind it is not decoded.
\<close>

lemma read_ends_at_first_throw:
  "data_event two_zone_receiver (''SSSODBD DEL'' @ [CHR 0x0D] @ ''MV455'' @ [CHR 0x0D])
   = Inl TypeError"
proof -
  have "map_sum id snd
      (data_event two_zone_receiver (''SSSODBD DEL'' @ [CHR 0x0D] @ ''MV455'' @ [CHR 0x0D]))
    = Inl TypeError"
    by code_simp
  then show ?thesis
    by (cases "data_event two_zone_receiver
        (''SSSODBD DEL'' @ [CHR 0x0D] @ ''MV455'' @ [CHR 0x0D])") auto
qed

section \<open>Zones that follow the main zone\<close>

lemma resolve_input_main:
  assumes "GetAllZoneSource raw 1 = Some main"
  shows "resolve_input raw 0 inp (1, z) = Inr (1, match_input main (GetTunerStatus raw) inp z)"
  using assms by (simp add: resolve_input_def)

lemma resolve_input_redirected:
  assumes "index \<noteq> 0" and "GetAllZoneSource raw (index + 1) = Some own"
    and "own = '''' \<or> own = ''SOURCE''" and "GetAllZoneSource raw 1 = Some main"
    and "zn = 1 \<or> zn = index + 1"
  shows "resolve_input raw index inp (zn, z)
         = Inr (1, match_input main (GetTunerStatus raw) inp z)"
  using assms by (auto simp: resolve_input_def)

lemma resolve_inputs_main:
  assumes "GetAllZoneSource raw 1 = Some main"
  shows "resolve_inputs raw 0 inputs (1, z)
         = Inr (1, fold (match_input main (GetTunerStatus raw)) inputs z)"
proof (induction inputs arbitrary: z)
  case Nil
  show ?case by (simp add: resolve_inputs_def)
next
  case (Cons inp inputs)
  have step: "resolve_input raw 0 inp (1, z)
         = Inr (1, match_input main (GetTunerStatus raw) inp z)"
    by (rule resolve_input_main [OF assms])
  show ?case
    using step Cons.IH [of "match_input main (GetTunerStatus raw) inp z"]
    by (simp add: resolve_inputs_def and_then_def)
qed

lemma resolve_inputs_redirected:
  assumes "index \<noteq> 0" and "GetAllZoneSource raw (index + 1) = Some own"
    and "own = '''' \<or> own = ''SOURCE''" and "GetAllZoneSource raw 1 = Some main"
    and "zn = 1 \<or> zn = index + 1"
  shows "resolve_inputs raw index inputs (zn, z)
         = Inr (if inputs = [] then zn else 1,
                fold (match_input main (GetTunerStatus raw)) inputs z)"
  using assms(5)
proof (induction inputs arbitrary: zn z)
  case Nil
  show ?case by (simp add: resolve_inputs_def)
next
  case (Cons inp inputs)
  have step: "resolve_input raw index inp (zn, z)
         = Inr (1, match_input main (GetTunerStatus raw) inp z)"
    by (rule resolve_input_redirected [OF assms(1-4) Cons.prems])
  have rest: "resolve_inputs raw index inputs (1, match_input main (GetTunerStatus raw) inp z)
         = Inr (if inputs = [] then 1 else 1,
                fold (match_input main (GetTunerStatus raw)) inputs
                  (match_input main (GetTunerStatus raw) inp z))"
    by (rule Cons.IH) simp
  show ?case
    using step rest by (simp add: resolve_inputs_def and_then_def)
qed

text \<open>Without a source for zone 1 the first round throws, for either zone.\<close>

lemma resolve_inputs_main_missing:
  assumes "index \<noteq> 0" and "GetAllZoneSource raw (index + 1) = Some own"
    and "own = '''' \<or> own = ''SOURCE''" and "GetAllZoneSource raw 1 = None"
  shows "resolve_inputs raw index (inp # inputs) (index + 1, z) = Inl TypeError"
    and "resolve_inputs raw 0 (inp # inputs) (1, z) = Inl TypeError"
  using assms by (auto simp: resolve_inputs_def resolve_input_def and_then_def)

text \<open>
  Claim C7. For a zone other than the main zone (\<open>index \<noteq> 0\<close>, zone \<open>index + 1\<close>)
  whose source is empty or \<open>SOURCE\<close>, the loop over the inputs reads the source of
  zone 1 from its first round on and resolves the zone from it: the result is every
  input matched against the source \<open>main\<close> of zone 1, which is what the loop gives
  for zone 1 itself. Zone 1 is resolved from its own source whatever that source is,
  also when it is empty or \<open>SOURCE\<close>.
\<close>

theorem follow_main_zone:
  assumes "index \<noteq> 0" and "GetAllZoneSource raw (index + 1) = Some own"
    and "own = '''' \<or> own = ''SOURCE''" and "GetAllZoneSource raw 1 = Some main"
  shows "resolve_inputs raw index inputs (index + 1, z)
           = Inr (if inputs = [] then index + 1 else 1,
                  fold (match_input main (GetTunerStatus raw)) inputs z)
         \<and> resolve_inputs raw 0 inputs (1, z)
           = Inr (1, fold (match_input main (GetTunerStatus raw)) inputs z)
         \<and> resolved (resolve_inputs raw index inputs (index + 1, z))
           = resolved (resolve_inputs raw 0 inputs (1, z))"
proof -
  have follow: "resolve_inputs raw index inputs (index + 1, z)
           = Inr (if inputs = [] then index + 1 else 1,
                  fold (match_input main (GetTunerStatus raw)) inputs z)"
    by (rule resolve_inputs_redirected [OF assms]) simp
  have main: "resolve_inputs raw 0 inputs (1, z)
           = Inr (1, fold (match_input main (GetTunerStatus raw)) inputs z)"
    by (rule resolve_inputs_main [OF assms(4)])
  show ?thesis
    unfolding follow main by (simp add: resolved_def)
qed

lemma two_zone_receiver_matches:
  "fold (match_input ''BD'' (GetTunerStatus two_zone_receiver))
     [plain_input ''CD'' ''CD'', plain_input ''BD'' ''Blu-ray'', plain_input ''GAME'' ''Game'']
     fresh_zone
   = fresh_zone\<lparr>zone_input := ''BD''\<rparr>"
  by code_simp

theorem follow_main_zone_witness:
  "(1::nat) \<noteq> 0 \<and> GetAllZoneSource two_zone_receiver (1 + 1) = Some ''SOURCE''
   \<and> (''SOURCE'' = '''' \<or> ''SOURCE'' = ''SOURCE'')
   \<and> GetAllZoneSource two_zone_receiver 1 = Some ''BD''
   \<and> resolve_inputs two_zone_receiver 1
        [plain_input ''CD'' ''CD'', plain_input ''BD'' ''Blu-ray'', plain_input ''GAME'' ''Game'']
        (1 + 1, fresh_zone)
      = Inr (1, fresh_zone\<lparr>zone_input := ''BD''\<rparr>)
   \<and> resolve_inputs two_zone_receiver 0
        [plain_input ''CD'' ''CD'', plain_input ''BD'' ''Blu-ray'', plain_input ''GAME'' ''Game'']
        (1, fresh_zone)
      = Inr (1, fresh_zone\<lparr>zone_input := ''BD''\<rparr>)"
proof -
  have own: "GetAllZoneSource two_zone_receiver (1 + 1) = Some ''SOURCE''"
    and main: "GetAllZoneSource two_zone_receiver 1 = Some ''BD''"
    by (simp_all add: two_zone_receiver_def)
  note follow = follow_main_zone [of 1 two_zone_receiver "''SOURCE''" "''BD''"
      "[plain_input ''CD'' ''CD'', plain_input ''BD'' ''Blu-ray'', plain_input ''GAME'' ''Game'']"
      fresh_zone, OF _ own _ main]
  from follow [unfolded two_zone_receiver_matches]
  show ?thesis
    using own main by simp
qed

section \<open>Exhausted retries of the request wrapper\<close>

lemma fetchWrapper_never_throws_status:
  "fst (fetchWrapper net method url retry n response) \<noteq> Inl (HttpError code)"
  by (subst fetchWrapper.simps)
    (auto simp: structuredClone_def Let_def split: fetch_outcome.splits option.splits)

text \<open>
  Claim C8, on the code. A command of the fallback channel is sent with the default of
  one attempt; when that attempt is answered by a failing response, the wrapper returns
  the failing response to the caller and does not throw. The branch that throws the
  failure asks for \<open>retry = 0\<close>, which no call reaches, whatever the arguments and
  the network. With a retry count of 3 the wrapper makes one attempt and ends in the
  \<open>DataCloneError\<close> of the clone; the request is not sent again.
\<close>

theorem fetchWrapper_failure_not_raised:
  "fetchWrapper (\<lambda>i. Resolves (Response False 500)) ''get'' ''http://avr/goform'' None 0 None
     = (Inr (Some (Response False 500)), Some 1, 1)
   \<and> fst (fetchWrapper net method url retry n response) \<noteq> Inl (HttpError code)
   \<and> fetchWrapper (\<lambda>i. Resolves (Response False 500)) ''get'' ''http://avr/goform'' (Some 3) 0 None
     = (Inl DataCloneError, Some 2, 1)"
proof -
  have one: "fetchWrapper (\<lambda>i. Resolves (Response False 500)) ''get'' ''http://avr/goform''
      None 0 None = (Inr (Some (Response False 500)), Some 1, 1)"
    by code_simp
  have three: "fetchWrapper (\<lambda>i. Resolves (Response False 500)) ''get'' ''http://avr/goform''
      (Some 3) 0 None = (Inl DataCloneError, Some 2, 1)"
    by code_simp
  show ?thesis
    using one three fetchWrapper_never_throws_status by simp
qed

section \<open>Reconciliation of the override cache\<close>

lemma reconcile_entry_other:
  assumes "fst entry \<noteq> k"
  shows "fst (reconcile_entry enc dd entry st) k = fst st k"
    and "map_of (snd (reconcile_entry enc dd entry st)) k = map_of (snd st) k"
proof -
  obtain key v where e: "entry = (key, v)" by (cases entry)
  obtain u c where s: "st = (u, c)" by (cases st)
  have d: "map_of (delete_key key c) k = map_of c k"
    using assms e by (induction c) (auto simp: delete_key_def)
  show "fst (reconcile_entry enc dd entry st) k = fst st k"
    using assms by (simp add: e s reconcile_entry_def)
  show "map_of (snd (reconcile_entry enc dd entry st)) k = map_of (snd st) k"
    using d by (simp add: e s reconcile_entry_def)
qed

lemma fold_reconcile_other:
  assumes "k \<notin> fst ` set es"
  shows "fst (fold (reconcile_entry enc dd) es st) k = fst st k
         \<and> map_of (snd (fold (reconcile_entry enc dd) es st)) k = map_of (snd st) k"
  using assms
proof (induction es arbitrary: st)
  case Nil
  show ?case by simp
next
  case (Cons e es)
  then have ne: "fst e \<noteq> k" and rest: "k \<notin> fst ` set es" by auto
  show ?case
    using Cons.IH [OF rest, of "reconcile_entry enc dd e st"]
    by (simp add: reconcile_entry_other [OF ne])
qed

lemma map_of_delete_key: "map_of (delete_key k c) k = None"
  by (induction c) (auto simp: delete_key_def)

lemma reconcile_at_key:
  assumes "distinct (map fst cachedOptions)" and "(k, v) \<in> set cachedOptions"
  shows "fst (reconcile enc dd u cachedOptions) k
           = fst (reconcile_entry enc dd (k, v) (u, cachedOptions)) k"
    and "map_of (snd (reconcile enc dd u cachedOptions)) k
           = (if map_of (snd (reconcile_entry enc dd (k, v) (u, cachedOptions))) k = None
              then None else Some v)"
proof -
  obtain es1 es2 where sp: "cachedOptions = es1 @ (k, v) # es2"
    using assms(2) by (auto simp: in_set_conv_decomp)
  have n1: "k \<notin> fst ` set es1" and n2: "k \<notin> fst ` set es2"
    using assms(1) unfolding sp by auto
  have mk: "map_of cachedOptions k = Some v"
    using assms by simp
  define s1 where "s1 = fold (reconcile_entry enc dd) es1 (u, cachedOptions)"
  have s1u: "fst s1 k = u k" and s1c: "map_of (snd s1) k = Some v"
    using fold_reconcile_other [OF n1, of enc dd "(u, cachedOptions)"] mk
    by (simp_all add: s1_def)
  define s2 where "s2 = reconcile_entry enc dd (k, v) s1"
  have fin: "reconcile enc dd u cachedOptions = fold (reconcile_entry enc dd) es2 s2"
    by (simp add: reconcile_def sp s1_def s2_def)
  have keep: "fst (reconcile enc dd u cachedOptions) k = fst s2 k"
    "map_of (snd (reconcile enc dd u cachedOptions)) k = map_of (snd s2) k"
    using fold_reconcile_other [OF n2, of enc dd s2] by (simp_all add: fin)
  obtain u1 c1 where s1: "s1 = (u1, c1)" by (cases s1)
  have u1: "u1 k = u k" and c1: "map_of c1 k = Some v"
    using s1u s1c by (simp_all add: s1)
  show "fst (reconcile enc dd u cachedOptions) k
           = fst (reconcile_entry enc dd (k, v) (u, cachedOptions)) k"
    unfolding keep s2_def s1 by (simp add: reconcile_entry_def u1)
  show "map_of (snd (reconcile enc dd u cachedOptions)) k
           = (if map_of (snd (reconcile_entry enc dd (k, v) (u, cachedOptions))) k = None
              then None else Some v)"
    unfolding keep s2_def s1
    by (simp add: reconcile_entry_def u1 c1 mk map_of_delete_key)
qed

text \<open>
  Claim C1. For every tracked field \<open>k\<close> of the cache, whatever the other entries:
  with previous canonical value \<open>off\<close> and local override \<open>on\<close>, an update reporting
  \<open>off\<close> keeps the override and exposes \<open>on\<close>; an update reporting \<open>on\<close> clears the
  override and exposes \<open>on\<close>; an update reporting a third value \<open>x\<close> clears the
  override and exposes \<open>x\<close>. The last two also hold for an update that follows the
  first one, when the accessory has stored the exposed value \<open>on\<close> as its data
  (\<open>exposedData\<close>).
\<close>

theorem reconcile_three_way:
  assumes "distinct (map fst cachedOptions)" and "(k, on) \<in> set cachedOptions"
    and "deviceData k = Some off" and "exposedData k = Some on" and "enc on \<noteq> enc off"
    and "enc x \<noteq> enc off" and "enc x \<noteq> enc on"
  shows "(fst (reconcile enc deviceData (u(k \<mapsto> off)) cachedOptions) k = Some on
          \<and> map_of (snd (reconcile enc deviceData (u(k \<mapsto> off)) cachedOptions)) k = Some on)
       \<and> (fst (reconcile enc deviceData (u(k \<mapsto> on)) cachedOptions) k = Some on
          \<and> map_of (snd (reconcile enc deviceData (u(k \<mapsto> on)) cachedOptions)) k = None)
       \<and> (fst (reconcile enc deviceData (u(k \<mapsto> x)) cachedOptions) k = Some x
          \<and> map_of (snd (reconcile enc deviceData (u(k \<mapsto> x)) cachedOptions)) k = None)
       \<and> (fst (reconcile enc exposedData (u(k \<mapsto> on)) cachedOptions) k = Some on
          \<and> map_of (snd (reconcile enc exposedData (u(k \<mapsto> on)) cachedOptions)) k = None)
       \<and> (fst (reconcile enc exposedData (u(k \<mapsto> x)) cachedOptions) k = Some x
          \<and> map_of (snd (reconcile enc exposedData (u(k \<mapsto> x)) cachedOptions)) k = None)"
proof -
  have mk: "map_of cachedOptions k = Some on" using assms(1,2) by simp
  note at_key = reconcile_at_key [OF assms(1,2)]
  have kept: "fst (reconcile enc deviceData (u(k \<mapsto> off)) cachedOptions) k = Some on
         \<and> map_of (snd (reconcile enc deviceData (u(k \<mapsto> off)) cachedOptions)) k = Some on"
    using assms(3,5) mk
    by (simp add: at_key reconcile_entry_def JSON_stringify_def)
  have confirmed: "fst (reconcile enc deviceData (u(k \<mapsto> on)) cachedOptions) k = Some on
         \<and> map_of (snd (reconcile enc deviceData (u(k \<mapsto> on)) cachedOptions)) k = None"
    using assms(3,5) mk
    by (simp add: at_key reconcile_entry_def JSON_stringify_def map_of_delete_key)
  have external: "fst (reconcile enc deviceData (u(k \<mapsto> x)) cachedOptions) k = Some x
         \<and> map_of (snd (reconcile enc deviceData (u(k \<mapsto> x)) cachedOptions)) k = None"
    using assms(3,6) mk
    by (simp add: at_key reconcile_entry_def JSON_stringify_def map_of_delete_key)
  have confirmed_later: "fst (reconcile enc exposedData (u(k \<mapsto> on)) cachedOptions) k = Some on
         \<and> map_of (snd (reconcile enc exposedData (u(k \<mapsto> on)) cachedOptions)) k = None"
    using assms(4) mk
    by (simp add: at_key reconcile_entry_def JSON_stringify_def map_of_delete_key)
  have external_later: "fst (reconcile enc exposedData (u(k \<mapsto> x)) cachedOptions) k = Some x
         \<and> map_of (snd (reconcile enc exposedData (u(k \<mapsto> x)) cachedOptions)) k = None"
    using assms(4,7) mk
    by (simp add: at_key reconcile_entry_def JSON_stringify_def map_of_delete_key)
  show ?thesis
    using kept confirmed external confirmed_later external_later by blast
qed

theorem reconcile_three_way_witness:
  "distinct (map fst [(''zones'', ''ON''), (''inputs'', ''A'')])
   \<and> (''zones'', ''ON'') \<in> set [(''zones'', ''ON''), (''inputs'', ''A'')]
   \<and> [''zones'' \<mapsto> ''OFF''] ''zones'' = Some ''OFF''
   \<and> [''zones'' \<mapsto> ''ON''] ''zones'' = Some ''ON''
   \<and> ''ON'' \<noteq> ''OFF'' \<and> ''STANDBY'' \<noteq> ''OFF'' \<and> ''STANDBY'' \<noteq> ''ON''
   \<and> fst (reconcile id [''zones'' \<mapsto> ''OFF''] (Map.empty(''zones'' \<mapsto> ''OFF''))
          [(''zones'', ''ON''), (''inputs'', ''A'')]) ''zones'' = Some ''ON''
   \<and> map_of (snd (reconcile id [''zones'' \<mapsto> ''OFF''] (Map.empty(''zones'' \<mapsto> ''OFF''))
          [(''zones'', ''ON''), (''inputs'', ''A'')])) ''zones'' = Some ''ON''
   \<and> fst (reconcile id [''zones'' \<mapsto> ''OFF''] (Map.empty(''zones'' \<mapsto> ''ON''))
          [(''zones'', ''ON''), (''inputs'', ''A'')]) ''zones'' = Some ''ON''
   \<and> map_of (snd (reconcile id [''zones'' \<mapsto> ''OFF''] (Map.empty(''zones'' \<mapsto> ''ON''))
          [(''zones'', ''ON''), (''inputs'', ''A'')])) ''zones'' = None
   \<and> fst (reconcile id [''zones'' \<mapsto> ''OFF''] (Map.empty(''zones'' \<mapsto> ''STANDBY''))
          [(''zones'', ''ON''), (''inputs'', ''A'')]) ''zones'' = Some ''STANDBY''
   \<and> map_of (snd (reconcile id [''zones'' \<mapsto> ''OFF''] (Map.empty(''zones'' \<mapsto> ''STANDBY''))
          [(''zones'', ''ON''), (''inputs'', ''A'')])) ''zones'' = None
   \<and> fst (reconcile id [''zones'' \<mapsto> ''ON''] (Map.empty(''zones'' \<mapsto> ''STANDBY''))
          [(''zones'', ''ON''), (''inputs'', ''A'')]) ''zones'' = Some ''STANDBY''
   \<and> map_of (snd (reconcile id [''zones'' \<mapsto> ''ON''] (Map.empty(''zones'' \<mapsto> ''STANDBY''))
          [(''zones'', ''ON''), (''inputs'', ''A'')])) ''zones'' = None"
  using reconcile_three_way [of "[(''zones'', ''ON''), (''inputs'', ''A'')]" "''zones''" "''ON''"
      "[''zones'' \<mapsto> ''OFF'']" "''OFF''" "[''zones'' \<mapsto> ''ON'']" id "''STANDBY''" Map.empty]
  by simp

end
